theory Spec2Isabelle
  imports Main "HOL-Library.AList"
begin

section \<open>Session lifecycle of the WhatsApp multi-session gateway\<close>

text \<open>
  The repository holds three generations of the same server: \<^verbatim>\<open>server.js\<close>,
  \<^verbatim>\<open>server-2.js\<close> and \<^verbatim>\<open>server-optimized.js\<close>. Their lifecycle code differs, so a
  function whose text differs is embedded once per file, with the suffix \<open>_v1\<close>
  (\<^verbatim>\<open>server.js\<close>), \<open>_v2\<close> (\<^verbatim>\<open>server-2.js\<close>) or \<open>_opt\<close> (\<^verbatim>\<open>server-optimized.js\<close>).
  \<^verbatim>\<open>killSession\<close>, \<^verbatim>\<open>startSession\<close> and the expiry sweep have the same text in
  \<^verbatim>\<open>server.js\<close> and \<^verbatim>\<open>server-2.js\<close> and are embedded once for both, without suffix.

  Conventions of the embedding:
  \<^item> The global object \<^verbatim>\<open>sessions\<close> is an association list in insertion order; writing a
    property is \<open>AList.update\<close>, \<^verbatim>\<open>delete\<close> is \<open>AList.delete\<close>, reading is \<open>map_of\<close>.
  \<^item> Every \<^verbatim>\<open>async\<close> function runs to completion as one step. A promise that rejects
    is the completion \<open>Rejected\<close> together with the state reached so far.
  \<^item> Calls into the libraries (socket, Redis, QR renderer) are appended to the log
    \<open>effects\<close> when they are invoked. A call that the source guards with
    \<^verbatim>\<open>try\<close>/\<^verbatim>\<open>catch\<close> somewhere may throw; whether it does is read from the oracle
    \<open>throws\<close> of the \<open>world\<close> the step runs in. \<^verbatim>\<open>useRedisAuthState\<close> and
    \<^verbatim>\<open>makeWASocket\<close> are never guarded and are taken to return; the objects they return
    are numbered by the counter \<open>fresh\<close>.
  \<^item> \<^verbatim>\<open>setTimeout\<close> appends the callback, as data, to \<open>timers\<close>; a pending timer is run
    by the function \<open>fire\<close> of its file. Delays are recorded, not enforced.
  \<^item> \<^verbatim>\<open>console.log\<close> lines are not modelled.
\<close>

subsection \<open>Data model\<close>

datatype status = PendingQr | PendingPair | Connected

fun status_str :: "status \<Rightarrow> string" where
  "status_str PendingQr = ''pending_qr''"
| "status_str PendingPair = ''pending_pair''"
| "status_str Connected = ''connected''"

definition startsWith :: "string \<Rightarrow> string \<Rightarrow> bool" where
  "startsWith s p = (take (length p) s = p)"

text \<open>JavaScript truthiness of a value that is \<^verbatim>\<open>null\<close>/\<^verbatim>\<open>undefined\<close> or a string.\<close>

fun truthy :: "string option \<Rightarrow> bool" where
  "truthy None = False"
| "truthy (Some x) = (x \<noteq> [])"

text \<open>
  The record stored under \<^verbatim>\<open>sessions[sessionId]\<close>. \<open>sock\<close> and \<open>authRedis\<close> are the
  numbers of the objects returned by \<^verbatim>\<open>makeWASocket\<close> and \<^verbatim>\<open>useRedisAuthState\<close>; both are
  objects, hence truthy, so \<^verbatim>\<open>s.sock?.\<close> and \<^verbatim>\<open>if (s.authRedis)\<close> always take the
  present branch. \<open>isReconnecting\<close> and \<open>isKilling\<close> are \<^verbatim>\<open>undefined\<close> (falsy) until
  assigned; no file assigns \<open>isKilling\<close>. The field \<^verbatim>\<open>listeners\<close> of
  \<^verbatim>\<open>server-optimized.js\<close> is written and never read, and is left out.
\<close>

record session =
  sock :: nat
  status :: status
  qr :: "string option"
  pairingCode :: "string option"
  createdAt :: int
  connectedAt :: "int option"
  phoneNumber :: "string option"
  authRedis :: nat
  reconnectAttempts :: nat
  isReconnecting :: bool
  isKilling :: bool

datatype call =
    SockEnd nat
  | SockLogout nat
  | EvRemoveAllListeners nat
  | SockRemoveAllListeners nat
  | DeleteKeysWithPattern nat string
  | RequestPairingCode nat string
  | ToDataURL string

text \<open>\<open>Emit sessionId event detail\<close> is \<^verbatim>\<open>emitToSession\<close>; \<open>detail\<close> is the field of the
  payload beside \<^verbatim>\<open>sessionId\<close> (reason, message, code, qr or error).\<close>

datatype effect =
    Call call
  | Emit string string string
  | Broadcast

record world =
  now :: int
  throws :: "call \<Rightarrow> bool"
  registered :: bool
  pairing_result :: string
  data_url :: "string \<Rightarrow> string"
  err_message :: "call \<Rightarrow> string"
  user_phone :: "nat \<Rightarrow> string"

datatype completion = Resolved | Rejected

record 'cb state =
  sessions :: "(string \<times> session) list"
  timers :: "(nat \<times> nat \<times> 'cb) list"
  next_timer :: nat
  fresh :: nat
  effects :: "effect list"

definition PENDING_EXPIRE_MS :: int where
  "PENDING_EXPIRE_MS = 2 * 60 * 1000"

subsection \<open>Helpers\<close>

definition invoke :: "call \<Rightarrow> ('cb, 'm) state_scheme \<Rightarrow> ('cb, 'm) state_scheme" where
  "invoke c st = st\<lparr>effects := effects st @ [Call c]\<rparr>"

definition emitToSession ::
  "string \<Rightarrow> string \<Rightarrow> string \<Rightarrow> ('cb, 'm) state_scheme \<Rightarrow> ('cb, 'm) state_scheme" where
  "emitToSession sessionId event detail st =
     st\<lparr>effects := effects st @ [Emit sessionId event detail]\<rparr>"

definition broadcastSessionStatus :: "('cb, 'm) state_scheme \<Rightarrow> ('cb, 'm) state_scheme" where
  "broadcastSessionStatus st = st\<lparr>effects := effects st @ [Broadcast]\<rparr>"

definition setTimeout ::
  "'cb \<Rightarrow> nat \<Rightarrow> ('cb, 'm) state_scheme \<Rightarrow> ('cb, 'm) state_scheme" where
  "setTimeout cb ms st =
     st\<lparr>timers := timers st @ [(next_timer st, ms, cb)], next_timer := Suc (next_timer st)\<rparr>"

definition put_session ::
  "string \<Rightarrow> session \<Rightarrow> ('cb, 'm) state_scheme \<Rightarrow> ('cb, 'm) state_scheme" where
  "put_session sessionId s st = st\<lparr>sessions := AList.update sessionId s (sessions st)\<rparr>"

definition delete_session :: "string \<Rightarrow> ('cb, 'm) state_scheme \<Rightarrow> ('cb, 'm) state_scheme" where
  "delete_session sessionId st = st\<lparr>sessions := AList.delete sessionId (sessions st)\<rparr>"

text \<open>The effects a step appended to the log.\<close>

definition new_effects :: "('cb, 'm) state_scheme \<Rightarrow> ('cb, 'm) state_scheme \<Rightarrow> effect list" where
  "new_effects st st' = drop (length (effects st)) (effects st')"


subsection \<open>killSession (server.js, server-2.js)\<close>

text \<open>
  \<^verbatim>\<open>end\<close> and \<^verbatim>\<open>logout\<close> share one \<^verbatim>\<open>try\<close> block: when \<^verbatim>\<open>end\<close> throws, \<^verbatim>\<open>logout\<close> is
  not reached. The purge has a \<^verbatim>\<open>try\<close> block of its own.
\<close>

definition killSession ::
  "world \<Rightarrow> string \<Rightarrow> string \<Rightarrow> ('cb, 'm) state_scheme \<Rightarrow> bool \<times> ('cb, 'm) state_scheme" where
  "killSession w sessionId reason st =
     (case map_of (sessions st) sessionId of
        None \<Rightarrow> (False, st)
      | Some s \<Rightarrow>
          let st1 = emitToSession sessionId ''session:killed'' reason st;
              st2 = invoke (SockEnd (sock s)) st1;
              st3 = (if throws w (SockEnd (sock s)) then st2
                     else invoke (SockLogout (sock s)) st2);
              st4 = invoke (DeleteKeysWithPattern (authRedis s) (sessionId @ '':*'')) st3;
              st5 = delete_session sessionId st4;
              st6 = broadcastSessionStatus st5
          in (True, st6))"

text \<open>\<^verbatim>\<open>app.delete('/session/:id')\<close>: the HTTP status and the \<^verbatim>\<open>code\<close> or \<^verbatim>\<open>message\<close> of the reply.\<close>

definition route_delete ::
  "world \<Rightarrow> string \<Rightarrow> ('cb, 'm) state_scheme \<Rightarrow> (nat \<times> string) \<times> ('cb, 'm) state_scheme" where
  "route_delete w ident st =
     (case killSession w ident ''api_delete'' st of
        (ok, st') \<Rightarrow>
          if \<not> ok then ((404, ''SESSION_NOT_FOUND''), st')
          else ((200, ''Session killed permanently''), st'))"

subsection \<open>Disconnect codes\<close>

text \<open>
  \<^verbatim>\<open>DisconnectReason\<close> is imported from the transport library; its numbers are the keys of
  the table in \<^verbatim>\<open>getDisconnectReasonName\<close>, where 408 stands for both \<^verbatim>\<open>connectionLost\<close>
  and \<^verbatim>\<open>timedOut\<close>. A close event carries \<^verbatim>\<open>lastDisconnect?.error?.output?.statusCode\<close>,
  which is \<open>None\<close> when any link of the chain is missing.
\<close>

definition DisconnectReason_connectionClosed :: nat where "DisconnectReason_connectionClosed = 428"
definition DisconnectReason_connectionLost :: nat where "DisconnectReason_connectionLost = 408"
definition DisconnectReason_timedOut :: nat where "DisconnectReason_timedOut = 408"
definition DisconnectReason_connectionReplaced :: nat where "DisconnectReason_connectionReplaced = 440"
definition DisconnectReason_badSession :: nat where "DisconnectReason_badSession = 500"
definition DisconnectReason_loggedOut :: nat where "DisconnectReason_loggedOut = 401"
definition DisconnectReason_restartRequired :: nat where "DisconnectReason_restartRequired = 515"
definition DisconnectReason_multideviceMismatch :: nat where "DisconnectReason_multideviceMismatch = 411"
definition DisconnectReason_forbidden :: nat where "DisconnectReason_forbidden = 403"
definition DisconnectReason_unavailableService :: nat where "DisconnectReason_unavailableService = 503"

lemmas DisconnectReason_defs =
  DisconnectReason_connectionClosed_def DisconnectReason_connectionLost_def
  DisconnectReason_timedOut_def DisconnectReason_connectionReplaced_def
  DisconnectReason_badSession_def DisconnectReason_loggedOut_def
  DisconnectReason_restartRequired_def DisconnectReason_multideviceMismatch_def
  DisconnectReason_forbidden_def DisconnectReason_unavailableService_def

fun decimal :: "nat \<Rightarrow> string" where
  "decimal n =
     (if n < 10 then [char_of (48 + n)] else decimal (n div 10) @ [char_of (48 + n mod 10)])"

declare decimal.simps [simp del]

text \<open>\<^verbatim>\<open>getDisconnectReasonName\<close> of \<^verbatim>\<open>server-optimized.js\<close> (the other two files name 408
  \<^verbatim>\<open>connectionLost/timedOut\<close> and use the name in log lines only).\<close>

definition getDisconnectReasonName :: "nat option \<Rightarrow> string" where
  "getDisconnectReasonName code =
     (case map_of
        [(428::nat, ''connectionClosed''), (408, ''connectionLost''),
         (440, ''connectionReplaced''), (500, ''badSession''), (401, ''loggedOut''),
         (515, ''restartRequired''), (411, ''multideviceMismatch''), (403, ''forbidden''),
         (503, ''unavailableService'')] (case code of None \<Rightarrow> 0 | Some c \<Rightarrow> c) of
        Some name \<Rightarrow> name
      | None \<Rightarrow> ''unknown('' @ (case code of None \<Rightarrow> ''undefined'' | Some c \<Rightarrow> decimal c) @ '')'')"

text \<open>The classification of \<^verbatim>\<open>spec.md\<close>, section 4.1, written from the specification's
  words; the handlers below do not use it.\<close>

datatype classification = Terminal | Transient | RestartRequired | Unknown

definition spec_classify :: "nat option \<Rightarrow> classification" where
  "spec_classify code =
     (if code \<in> {Some 401, Some 500, Some 403, Some 411, Some 440} then Terminal
      else if code \<in> {Some 408, Some 428, Some 503} then Transient
      else if code = Some 515 then RestartRequired
      else Unknown)"

text \<open>The argument of the \<^verbatim>\<open>connection.update\<close> listener.\<close>

record update =
  u_connection :: "string option"
  u_qr :: "string option"
  u_statusCode :: "nat option"

definition close_event :: "nat option \<Rightarrow> update" where
  "close_event code = \<lparr>u_connection = Some ''close'', u_qr = None, u_statusCode = code\<rparr>"



text \<open>Sequencing of awaited steps: a rejection ends the function.\<close>

definition andThen ::
  "completion \<times> 'a \<Rightarrow> ('a \<Rightarrow> completion \<times> 'a) \<Rightarrow> completion \<times> 'a" where
  "andThen r k = (case r of (Rejected, st) \<Rightarrow> (Rejected, st) | (Resolved, st) \<Rightarrow> k st)"

text \<open>\<^verbatim>\<open>await deleteKeysWithPattern({ redis, pattern: `${sessionId}:*` })\<close> outside a
  \<^verbatim>\<open>try\<close> block.\<close>

definition deleteKeys ::
  "world \<Rightarrow> nat \<Rightarrow> string \<Rightarrow> ('cb, 'm) state_scheme \<Rightarrow> completion \<times> ('cb, 'm) state_scheme" where
  "deleteKeys w client sessionId st =
     (let c = DeleteKeysWithPattern client (sessionId @ '':*'')
      in (if throws w c then Rejected else Resolved, invoke c st))"

text \<open>\<^verbatim>\<open>phoneNumber.replace(/\D/g, '')\<close>.\<close>

definition digits :: "string \<Rightarrow> string" where
  "digits p = filter (\<lambda>c. c \<in> set ''0123456789'') p"

text \<open>The object literal stored by \<^verbatim>\<open>startSession\<close>.\<close>

definition new_session :: "nat \<Rightarrow> nat \<Rightarrow> string option \<Rightarrow> int \<Rightarrow> session" where
  "new_session sk client phone t =
     \<lparr>sock = sk, status = (if truthy phone then PendingPair else PendingQr), qr = None,
      pairingCode = None, createdAt = t, connectedAt = None, phoneNumber = phone,
      authRedis = client, reconnectAttempts = 0, isReconnecting = False, isKilling = False\<rparr>"

datatype start_result = AlreadyConnected | MaxSessionsReached | Started

subsection \<open>startSession and the timer callbacks (server.js, server-2.js)\<close>

text \<open>
  The callbacks passed to \<^verbatim>\<open>setTimeout\<close>, with the variables each closure captures:
  \<^item> \<open>PairingCb sessionId sock phoneNumber\<close>: the pairing-code request of \<^verbatim>\<open>startSession\<close>;
  \<^item> \<open>RestartCb\<close>: \<^verbatim>\<open>if (sessions[sessionId]) startSession(sessionId, phoneNumber, true)\<close>;
  \<^item> \<open>RestartUnlessKillingCb\<close>: the same, guarded also by \<^verbatim>\<open>!sessions[sessionId].isKilling\<close>;
  \<^item> \<open>RestartClearCb sessionId phoneNumber k\<close>: the callback of \<^verbatim>\<open>server-2.js\<close>, which
    first writes \<^verbatim>\<open>s.isReconnecting = false\<close> on the record object \<open>s\<close> it captured.
    An object is identified by the socket \<open>k\<close> it was created with; the write is
    visible in the registry only while that object is still the registered one;
  \<^item> \<open>WaitCleanupCb\<close>: \<^verbatim>\<open>() => clearInterval(i)\<close> of \<^verbatim>\<open>waitForSessionData\<close>, which
    touches nothing of the state modelled here.
\<close>

datatype cb =
    PairingCb string nat string
  | RestartCb string "string option"
  | RestartUnlessKillingCb string "string option"
  | RestartClearCb string "string option" nat
  | WaitCleanupCb

definition startSession ::
  "world \<Rightarrow> string \<Rightarrow> string option \<Rightarrow> bool \<Rightarrow> cb state \<Rightarrow> start_result \<times> cb state" where
  "startSession w sessionId phone force st =
     (let existing = map_of (sessions st) sessionId in
      if (case existing of None \<Rightarrow> False | Some e \<Rightarrow> \<not> force \<and> status e = Connected)
      then (AlreadyConnected, st)
      else
        let st1 = (case existing of
                     None \<Rightarrow> st
                   | Some e \<Rightarrow>
                       if force then delete_session sessionId (invoke (SockEnd (sock e)) st)
                       else st);
            client = fresh st1;
            sk = Suc (fresh st1);
            st2 = st1\<lparr>fresh := fresh st1 + 2\<rparr>;
            st3 = put_session sessionId (new_session sk client phone (now w)) st2;
            st4 = broadcastSessionStatus st3;
            st5 = (case phone of
                     None \<Rightarrow> st4
                   | Some p \<Rightarrow>
                       if p \<noteq> [] \<and> \<not> registered w
                       then setTimeout (PairingCb sessionId sk p) 1200 st4
                       else st4)
        in (Started, st5))"

fun run_cb :: "world \<Rightarrow> cb \<Rightarrow> cb state \<Rightarrow> cb state" where
  "run_cb w (PairingCb sessionId sk p) st =
     (let c = RequestPairingCode sk (digits p);
          st1 = invoke c st
      in if throws w c then emitToSession sessionId ''pairing:error'' (err_message w c) st1
         else
           (case map_of (sessions st1) sessionId of
              None \<Rightarrow>
                emitToSession sessionId ''pairing:error'' ''Cannot set properties of undefined'' st1
            | Some s \<Rightarrow>
                broadcastSessionStatus
                  (emitToSession sessionId ''pairing:code'' (pairing_result w)
                    (put_session sessionId (s\<lparr>pairingCode := Some (pairing_result w)\<rparr>) st1))))"
| "run_cb w (RestartCb sessionId phone) st =
     (case map_of (sessions st) sessionId of
        None \<Rightarrow> st
      | Some s \<Rightarrow> snd (startSession w sessionId phone True st))"
| "run_cb w (RestartUnlessKillingCb sessionId phone) st =
     (case map_of (sessions st) sessionId of
        None \<Rightarrow> st
      | Some s \<Rightarrow> if \<not> isKilling s then snd (startSession w sessionId phone True st) else st)"
| "run_cb w (RestartClearCb sessionId phone k) st =
     (case map_of (sessions st) sessionId of
        None \<Rightarrow> st
      | Some s \<Rightarrow>
          let st1 = (if sock s = k then put_session sessionId (s\<lparr>isReconnecting := False\<rparr>) st
                     else st)
          in snd (startSession w sessionId phone True st1))"
| "run_cb w WaitCleanupCb st = st"

text \<open>A pending timer fires: it leaves \<open>timers\<close> and its callback runs.\<close>

definition fire :: "world \<Rightarrow> nat \<Rightarrow> cb state \<Rightarrow> cb state" where
  "fire w t st =
     (case find (\<lambda>e. fst e = t) (timers st) of
        None \<Rightarrow> st
      | Some e \<Rightarrow> run_cb w (snd (snd e)) (st\<lparr>timers := filter (\<lambda>e. fst e \<noteq> t) (timers st)\<rparr>))"

subsection \<open>Routes and restore (server.js, server-2.js)\<close>

text \<open>
  Of each route, the part that acts on the state. The replies are computed from the state;
  computing them, and the route \<^verbatim>\<open>/send-message\<close>, add effects only.
  \<^verbatim>\<open>waitForSessionData\<close> polls the registry and leaves one timer behind, after
  \<^verbatim>\<open>timeout + 500\<close> ms with the default \<^verbatim>\<open>timeout = 4000\<close>.
\<close>

definition waitForSessionData :: "string \<Rightarrow> cb state \<Rightarrow> cb state" where
  "waitForSessionData sessionId st = setTimeout WaitCleanupCb 4500 st"

definition route_start :: "world \<Rightarrow> string \<Rightarrow> string option \<Rightarrow> cb state \<Rightarrow> cb state" where
  "route_start w ident phone st =
     waitForSessionData ident
       (case map_of (sessions st) ident of
          None \<Rightarrow> snd (startSession w ident phone False st)
        | Some s \<Rightarrow> st)"

definition route_refresh :: "world \<Rightarrow> string \<Rightarrow> cb state \<Rightarrow> cb state" where
  "route_refresh w ident st =
     (case map_of (sessions st) ident of
        None \<Rightarrow> st
      | Some s \<Rightarrow> waitForSessionData ident (snd (startSession w ident (phoneNumber s) True st)))"

text \<open>\<^verbatim>\<open>GET /logout/:id\<close>: neither the logout nor the purge is inside a \<^verbatim>\<open>try\<close> block.\<close>

definition route_logout :: "world \<Rightarrow> string \<Rightarrow> cb state \<Rightarrow> completion \<times> cb state" where
  "route_logout w ident st =
     (case map_of (sessions st) ident of
        None \<Rightarrow> (Resolved, st)
      | Some s \<Rightarrow>
          let st1 = invoke (SockLogout (sock s)) st
          in if throws w (SockLogout (sock s)) then (Rejected, st1)
             else andThen (deleteKeys w (authRedis s) ident st1)
                    (\<lambda>st2. (Resolved, broadcastSessionStatus (delete_session ident st2))))"

text \<open>\<^verbatim>\<open>restoreSessions\<close> over the ids found in Redis, each with the world its start runs
  in.\<close>

definition restore_one :: "string \<times> world \<Rightarrow> cb state \<Rightarrow> cb state" where
  "restore_one e st =
     (case e of (ident, w) \<Rightarrow>
        (case map_of (sessions st) ident of
           None \<Rightarrow> snd (startSession w ident None False st)
         | Some s \<Rightarrow> st))"

definition restoreSessions :: "(string \<times> world) list \<Rightarrow> cb state \<Rightarrow> cb state" where
  "restoreSessions found st = broadcastSessionStatus (fold restore_one found st)"

subsection \<open>The connection.update listener of server.js\<close>

text \<open>
  The listener is a closure over \<^verbatim>\<open>sessionId\<close>, \<^verbatim>\<open>phoneNumber\<close> and \<^verbatim>\<open>sock\<close> of the
  \<^verbatim>\<open>startSession\<close> call that registered it; the three captured values are arguments here.
  The local \<^verbatim>\<open>s\<close> is the registered record object, so a write to \<^verbatim>\<open>s\<close> is a write to
  the registry (\<open>put_session\<close>) as long as the record has not been deleted.
\<close>

text \<open>\<^verbatim>\<open>if (qr && s.status === 'pending_qr')\<close>: the payload to store, if any.\<close>

definition accepted_qr :: "update \<Rightarrow> session \<Rightarrow> string option" where
  "accepted_qr u s =
     (case u_qr u of
        None \<Rightarrow> None
      | Some q \<Rightarrow> if q \<noteq> [] \<and> status s = PendingQr then Some q else None)"

definition with_qr :: "update \<Rightarrow> session \<Rightarrow> session" where
  "with_qr u s = (case accepted_qr u s of None \<Rightarrow> s | Some q \<Rightarrow> s\<lparr>qr := Some q\<rparr>)"

text \<open>The first \<^verbatim>\<open>if\<close> of the listener in \<^verbatim>\<open>server.js\<close> and \<^verbatim>\<open>server-2.js\<close>: the rendering
  is awaited outside any \<^verbatim>\<open>try\<close> block, after the payload has been stored.\<close>

definition on_qr ::
  "world \<Rightarrow> string \<Rightarrow> update \<Rightarrow> session \<Rightarrow> cb state \<Rightarrow> completion \<times> cb state" where
  "on_qr w sessionId u s st =
     (case accepted_qr u s of
        None \<Rightarrow> (Resolved, st)
      | Some q \<Rightarrow>
          let st1 = invoke (ToDataURL q) (put_session sessionId (s\<lparr>qr := Some q\<rparr>) st)
          in if throws w (ToDataURL q) then (Rejected, st1)
             else (Resolved,
                   broadcastSessionStatus
                     (emitToSession sessionId ''qr:update'' (data_url w q) st1)))"

definition opened_v1 :: "world \<Rightarrow> session \<Rightarrow> session" where
  "opened_v1 w s =
     s\<lparr>status := Connected, connectedAt := Some (now w), createdAt := now w, qr := None,
       pairingCode := None, reconnectAttempts := 0\<rparr>"

text \<open>The branches of the \<^verbatim>\<open>if\<close>/\<^verbatim>\<open>else if\<close> chain that purge and delete.\<close>

definition purge_delete_v1 ::
  "world \<Rightarrow> string \<Rightarrow> session \<Rightarrow> (string \<times> string) option \<Rightarrow> cb state \<Rightarrow> completion \<times> cb state" where
  "purge_delete_v1 w sessionId s notice st =
     andThen (deleteKeys w (authRedis s) sessionId st)
       (\<lambda>st1. let st2 = delete_session sessionId st1;
                  st3 = (case notice of
                           None \<Rightarrow> st2
                         | Some (event, message) \<Rightarrow> emitToSession sessionId event message st2)
              in (Resolved, broadcastSessionStatus st3))"

definition close_chain_v1 ::
  "world \<Rightarrow> string \<Rightarrow> string option \<Rightarrow> nat option \<Rightarrow> session \<Rightarrow> cb state \<Rightarrow> completion \<times> cb state" where
  "close_chain_v1 w sessionId phone code s st =
     (if code = Some DisconnectReason_loggedOut then purge_delete_v1 w sessionId s None st
      else if code = Some DisconnectReason_badSession then purge_delete_v1 w sessionId s None st
      else if code = Some DisconnectReason_forbidden then
        purge_delete_v1 w sessionId s
          (Some (''session:forbidden'', ''Account banned or forbidden by WhatsApp'')) st
      else if code = Some DisconnectReason_multideviceMismatch then
        purge_delete_v1 w sessionId s
          (Some (''session:multidevice_error'', ''Multidevice mismatch - please re-authenticate'')) st
      else if code = Some DisconnectReason_connectionLost \<or> code = Some DisconnectReason_timedOut
              \<or> code = Some DisconnectReason_connectionClosed then
        (let n = reconnectAttempts s + 1;
             st1 = put_session sessionId (s\<lparr>reconnectAttempts := n\<rparr>) st
         in if n \<le> 5 then (Resolved, setTimeout (RestartCb sessionId phone) (min (n * 2000) 10000) st1)
            else (Resolved, snd (killSession w sessionId ''max_reconnect_attempts'' st1)))
      else if code = Some DisconnectReason_connectionReplaced then
        purge_delete_v1 w sessionId s
          (Some (''session:replaced'', ''Connection replaced by another device'')) st
      else if code = Some DisconnectReason_restartRequired then
        (Resolved,
         setTimeout (RestartUnlessKillingCb sessionId phone) 2000
           (put_session sessionId (s\<lparr>isReconnecting := True\<rparr>) st))
      else (Resolved, st))"

text \<open>The statement after the chain: a separate \<^verbatim>\<open>if (code === unavailableService)\<close> whose
  \<^verbatim>\<open>else\<close> runs for every other code, whatever branch of the chain ran before.\<close>

definition close_tail_v1 ::
  "world \<Rightarrow> string \<Rightarrow> string option \<Rightarrow> nat option \<Rightarrow> session \<Rightarrow> cb state \<Rightarrow> completion \<times> cb state" where
  "close_tail_v1 w sessionId phone code s st =
     (if code = Some DisconnectReason_unavailableService then
        (if isReconnecting s then (Resolved, st)
         else
           let n = reconnectAttempts s + 1;
               st1 = put_session sessionId (s\<lparr>isReconnecting := True, reconnectAttempts := n\<rparr>) st
           in if n \<le> 5
              then (Resolved,
                    setTimeout (RestartUnlessKillingCb sessionId phone) (min (n * 5000) 30000) st1)
              else (Resolved, snd (killSession w sessionId ''service_unavailable'' st1)))
      else (Resolved, setTimeout (RestartCb sessionId phone) 3000 st))"

definition connection_update_v1 ::
  "world \<Rightarrow> string \<Rightarrow> string option \<Rightarrow> nat \<Rightarrow> update \<Rightarrow> cb state \<Rightarrow> completion \<times> cb state" where
  "connection_update_v1 w sessionId phone sk u st =
     (case map_of (sessions st) sessionId of
        None \<Rightarrow> (Resolved, st)
      | Some s \<Rightarrow>
          let s1 = with_qr u s
          in andThen (on_qr w sessionId u s st)
               (\<lambda>st1.
                  let is_open = (u_connection u = Some ''open'');
                      s2 = (if is_open then opened_v1 w s1 else s1);
                      st2 = (if is_open
                             then broadcastSessionStatus
                                    (emitToSession sessionId ''session:connected'' (user_phone w sk)
                                      (put_session sessionId s2 st1))
                             else st1)
                  in if u_connection u = Some ''close''
                     then andThen (close_chain_v1 w sessionId phone (u_statusCode u) s2 st2)
                            (close_tail_v1 w sessionId phone (u_statusCode u) s2)
                     else (Resolved, st2)))"

subsection \<open>The connection.update listener of server-2.js\<close>

definition opened_v2 :: "world \<Rightarrow> session \<Rightarrow> session" where
  "opened_v2 w s =
     s\<lparr>status := Connected, connectedAt := Some (now w), createdAt := now w, qr := None,
       pairingCode := None, reconnectAttempts := 0, isReconnecting := False\<rparr>"

definition on_close_v2 ::
  "world \<Rightarrow> string \<Rightarrow> string option \<Rightarrow> nat option \<Rightarrow> session \<Rightarrow> cb state \<Rightarrow> completion \<times> cb state" where
  "on_close_v2 w sessionId phone code s st =
     (let isLoggedOut = (code = Some DisconnectReason_loggedOut);
          isConnectionLost = (code = Some DisconnectReason_connectionLost);
          isTimedOut = (code = Some DisconnectReason_timedOut);
          isConnectionClosed = (code = Some DisconnectReason_connectionClosed);
          isBadSession = (code = Some DisconnectReason_badSession);
          isForbidden = (code = Some DisconnectReason_forbidden);
          isMultideviceMismatch = (code = Some DisconnectReason_multideviceMismatch);
          isConnectionReplaced = (code = Some DisconnectReason_connectionReplaced);
          isRestartRequired = (code = Some DisconnectReason_restartRequired);
          isUnavailableService = (code = Some DisconnectReason_unavailableService)
      in
      if isReconnecting s then (Resolved, st)
      else if isLoggedOut \<or> isBadSession \<or> isForbidden \<or> isMultideviceMismatch
              \<or> isConnectionReplaced then
        andThen (deleteKeys w (authRedis s) sessionId st)
          (\<lambda>st1. let st2 = delete_session sessionId st1;
                     st3 = (if isForbidden then
                              emitToSession sessionId ''session:forbidden''
                                ''Account banned or forbidden by WhatsApp'' st2
                            else if isMultideviceMismatch then
                              emitToSession sessionId ''session:multidevice_error''
                                ''Multidevice mismatch - please re-authenticate'' st2
                            else if isConnectionReplaced then
                              emitToSession sessionId ''session:replaced''
                                ''Connection replaced by another device'' st2
                            else st2)
                 in (Resolved, broadcastSessionStatus st3))
      else if isConnectionLost \<or> isTimedOut \<or> isConnectionClosed \<or> isUnavailableService then
        (let n = reconnectAttempts s + 1;
             maxAttempts = 5;
             st1 = put_session sessionId (s\<lparr>reconnectAttempts := n\<rparr>) st
         in if n \<le> maxAttempts then
              (let baseBackoff = (if isUnavailableService then 5000 else 2000);
                   backoff = min (n * baseBackoff) 30000;
                   st2 = put_session sessionId (s\<lparr>reconnectAttempts := n, isReconnecting := True\<rparr>) st1
               in (Resolved, setTimeout (RestartClearCb sessionId phone (sock s)) backoff st2))
            else (Resolved, snd (killSession w sessionId ''max_reconnect_attempts'' st1)))
      else if isRestartRequired then
        (Resolved,
         setTimeout (RestartClearCb sessionId phone (sock s)) 2000
           (put_session sessionId (s\<lparr>isReconnecting := True\<rparr>) st))
      else (Resolved, st))"

definition connection_update_v2 ::
  "world \<Rightarrow> string \<Rightarrow> string option \<Rightarrow> nat \<Rightarrow> update \<Rightarrow> cb state \<Rightarrow> completion \<times> cb state" where
  "connection_update_v2 w sessionId phone sk u st =
     (case map_of (sessions st) sessionId of
        None \<Rightarrow> (Resolved, st)
      | Some s \<Rightarrow>
          let s1 = with_qr u s
          in andThen (on_qr w sessionId u s st)
               (\<lambda>st1.
                  let is_open = (u_connection u = Some ''open'');
                      s2 = (if is_open then opened_v2 w s1 else s1);
                      st2 = (if is_open
                             then broadcastSessionStatus
                                    (emitToSession sessionId ''session:connected'' (user_phone w sk)
                                      (put_session sessionId s2 st1))
                             else st1)
                  in if u_connection u = Some ''close''
                     then on_close_v2 w sessionId phone (u_statusCode u) s2 st2
                     else (Resolved, st2)))"

subsection \<open>The expiry sweep of server.js and server-2.js\<close>

text \<open>The body of the \<^verbatim>\<open>for\<close> loop over \<^verbatim>\<open>Object.entries(sessions)\<close>, on the flag
  \<^verbatim>\<open>changed\<close> and the state. \<^verbatim>\<open>s.sock?.end()\<close> is not awaited, so its failure does not
  reach the loop.\<close>

definition expire_entry ::
  "int \<Rightarrow> string \<times> session \<Rightarrow> bool \<times> cb state \<Rightarrow> bool \<times> cb state" where
  "expire_entry t e acc =
     (case e of (ident, s) \<Rightarrow>
        (case acc of (changed, st) \<Rightarrow>
           if startsWith (status_str (status s)) ''pending'' \<and> t - createdAt s > PENDING_EXPIRE_MS
           then (True, delete_session ident (invoke (SockEnd (sock s)) st))
           else (changed, st)))"

definition sweep :: "world \<Rightarrow> cb state \<Rightarrow> cb state" where
  "sweep w st =
     (case fold (expire_entry (now w)) (sessions st) (False, st) of
        (changed, st') \<Rightarrow> if changed then broadcastSessionStatus st' else st')"

subsection \<open>server-optimized.js\<close>

text \<open>
  \<^verbatim>\<open>sessionTimers\<close> maps a session id to the timer handles recorded for it.
  \<^verbatim>\<open>MAX_SESSIONS\<close> is \<^verbatim>\<open>parseInt(process.env.MAX_SESSIONS || '50')\<close>: a parameter of the
  functions below, \<open>None\<close> when the setting does not parse (\<^verbatim>\<open>NaN\<close>, for which every
  comparison is false).
\<close>

datatype cb_opt =
    PairingOpt string nat string
  | RestartIfNotReconnectingOpt string "string option" nat
  | RestartClearOpt string "string option" nat
  | WaitCleanupOpt

record opt_state = "cb_opt state" +
  sessionTimers :: "(string \<times> nat list) list"

definition MAX_RECONNECT_ATTEMPTS :: nat where
  "MAX_RECONNECT_ATTEMPTS = 5"

definition ge_js :: "nat \<Rightarrow> int option \<Rightarrow> bool" where
  "ge_js n m = (case m of None \<Rightarrow> False | Some k \<Rightarrow> int n \<ge> k)"

definition lt_js :: "nat \<Rightarrow> int option \<Rightarrow> bool" where
  "lt_js n m = (case m of None \<Rightarrow> False | Some k \<Rightarrow> int n < k)"

definition clearSessionTimers :: "string \<Rightarrow> opt_state \<Rightarrow> opt_state" where
  "clearSessionTimers sessionId st =
     (case map_of (sessionTimers st) sessionId of
        None \<Rightarrow> st
      | Some hs \<Rightarrow>
          st\<lparr>timers := filter (\<lambda>e. fst e \<notin> set hs) (timers st),
             sessionTimers := AList.delete sessionId (sessionTimers st)\<rparr>)"

definition addSessionTimer :: "string \<Rightarrow> nat \<Rightarrow> opt_state \<Rightarrow> opt_state" where
  "addSessionTimer sessionId h st =
     st\<lparr>sessionTimers :=
          AList.update sessionId
            ((case map_of (sessionTimers st) sessionId of None \<Rightarrow> [] | Some hs \<Rightarrow> hs) @ [h])
            (sessionTimers st)\<rparr>"

text \<open>\<^verbatim>\<open>const timer = setTimeout(...); addSessionTimer(sessionId, timer)\<close>.\<close>

definition setTrackedTimeout :: "string \<Rightarrow> cb_opt \<Rightarrow> nat \<Rightarrow> opt_state \<Rightarrow> opt_state" where
  "setTrackedTimeout sessionId cb ms st = addSessionTimer sessionId (next_timer st) (setTimeout cb ms st)"

definition cleanupSessionRedis :: "world \<Rightarrow> string \<Rightarrow> nat \<Rightarrow> opt_state \<Rightarrow> opt_state" where
  "cleanupSessionRedis w sessionId client st =
     invoke (DeleteKeysWithPattern client (sessionId @ '':*'')) st"

text \<open>One \<^verbatim>\<open>try\<close> block around the three calls: the first that throws ends the function.\<close>

definition cleanupSessionSocket :: "world \<Rightarrow> nat \<Rightarrow> opt_state \<Rightarrow> opt_state" where
  "cleanupSessionSocket w sk st =
     (let st1 = invoke (EvRemoveAllListeners sk) st
      in if throws w (EvRemoveAllListeners sk) then st1
         else
           let st2 = invoke (SockRemoveAllListeners sk) st1
           in if throws w (SockRemoveAllListeners sk) then st2
              else invoke (SockEnd sk) st2)"

definition killSession_opt :: "world \<Rightarrow> string \<Rightarrow> string \<Rightarrow> opt_state \<Rightarrow> bool \<times> opt_state" where
  "killSession_opt w sessionId reason st =
     (case map_of (sessions st) sessionId of
        None \<Rightarrow> (False, st)
      | Some s \<Rightarrow>
          let st1 = emitToSession sessionId ''session:killed'' reason st;
              st2 = cleanupSessionSocket w (sock s) st1;
              st3 = cleanupSessionRedis w sessionId (authRedis s) st2;
              st4 = clearSessionTimers sessionId st3;
              st5 = delete_session sessionId st4;
              st6 = broadcastSessionStatus st5
          in (True, st6))"

definition startSession_opt ::
  "int option \<Rightarrow> world \<Rightarrow> string \<Rightarrow> string option \<Rightarrow> bool \<Rightarrow> opt_state \<Rightarrow> start_result \<times> opt_state" where
  "startSession_opt MAX_SESSIONS w sessionId phone force st =
     (let existing = map_of (sessions st) sessionId in
      if (case existing of None \<Rightarrow> False | Some e \<Rightarrow> \<not> force \<and> status e = Connected)
      then (AlreadyConnected, st)
      else
        let activeSessions = length (sessions st) in
        if existing = None \<and> ge_js activeSessions MAX_SESSIONS then (MaxSessionsReached, st)
        else
          let st1 = (case existing of
                       None \<Rightarrow> st
                     | Some e \<Rightarrow>
                         if force
                         then delete_session sessionId
                                (clearSessionTimers sessionId (cleanupSessionSocket w (sock e) st))
                         else st);
              client = fresh st1;
              sk = Suc (fresh st1);
              st2 = st1\<lparr>fresh := fresh st1 + 2\<rparr>;
              st3 = put_session sessionId (new_session sk client phone (now w)) st2;
              st4 = broadcastSessionStatus st3;
              st5 = (case phone of
                       None \<Rightarrow> st4
                     | Some p \<Rightarrow>
                         if p \<noteq> [] \<and> \<not> registered w
                         then setTrackedTimeout sessionId (PairingOpt sessionId sk p) 1200 st4
                         else st4)
          in (Started, st5))"

fun run_cb_opt :: "int option \<Rightarrow> world \<Rightarrow> cb_opt \<Rightarrow> opt_state \<Rightarrow> opt_state" where
  "run_cb_opt M w (PairingOpt sessionId sk p) st =
     (let c = RequestPairingCode sk (digits p);
          st1 = invoke c st
      in if throws w c then emitToSession sessionId ''pairing:error'' (err_message w c) st1
         else
           (case map_of (sessions st1) sessionId of
              None \<Rightarrow> st1
            | Some s \<Rightarrow>
                broadcastSessionStatus
                  (emitToSession sessionId ''pairing:code'' (pairing_result w)
                    (put_session sessionId (s\<lparr>pairingCode := Some (pairing_result w)\<rparr>) st1))))"
| "run_cb_opt M w (RestartIfNotReconnectingOpt sessionId phone k) st =
     (case map_of (sessions st) sessionId of
        None \<Rightarrow> st
      | Some s \<Rightarrow>
          if \<not> isReconnecting s
          then (let st1 = (if sock s = k
                           then put_session sessionId (s\<lparr>isReconnecting := False\<rparr>) st else st)
                in snd (startSession_opt M w sessionId phone True st1))
          else st)"
| "run_cb_opt M w (RestartClearOpt sessionId phone k) st =
     (case map_of (sessions st) sessionId of
        None \<Rightarrow> st
      | Some s \<Rightarrow>
          let st1 = (if sock s = k then put_session sessionId (s\<lparr>isReconnecting := False\<rparr>) st
                     else st)
          in snd (startSession_opt M w sessionId phone True st1))"
| "run_cb_opt M w WaitCleanupOpt st = st"

definition fire_opt :: "int option \<Rightarrow> world \<Rightarrow> nat \<Rightarrow> opt_state \<Rightarrow> opt_state" where
  "fire_opt M w t st =
     (case find (\<lambda>e. fst e = t) (timers st) of
        None \<Rightarrow> st
      | Some e \<Rightarrow>
          run_cb_opt M w (snd (snd e)) (st\<lparr>timers := filter (\<lambda>e. fst e \<noteq> t) (timers st)\<rparr>))"

text \<open>In \<^verbatim>\<open>connectionListener\<close> the rendering of the QR code has a \<^verbatim>\<open>try\<close> block of its
  own, and the \<^verbatim>\<open>open\<close> branch returns.\<close>

definition on_qr_opt :: "world \<Rightarrow> string \<Rightarrow> update \<Rightarrow> session \<Rightarrow> opt_state \<Rightarrow> opt_state" where
  "on_qr_opt w sessionId u s st =
     (case accepted_qr u s of
        None \<Rightarrow> st
      | Some q \<Rightarrow>
          let st1 = invoke (ToDataURL q) (put_session sessionId (s\<lparr>qr := Some q\<rparr>) st)
          in if throws w (ToDataURL q) then st1
             else broadcastSessionStatus
                    (emitToSession sessionId ''qr:update'' (data_url w q) st1))"

definition on_close_opt ::
  "world \<Rightarrow> string \<Rightarrow> string option \<Rightarrow> nat option \<Rightarrow> session \<Rightarrow> opt_state \<Rightarrow> opt_state" where
  "on_close_opt w sessionId phone code s st =
     (let reasonName = getDisconnectReasonName code;
          isLoggedOut = (code = Some DisconnectReason_loggedOut);
          isConnectionLost = (code = Some DisconnectReason_connectionLost);
          isTimedOut = (code = Some DisconnectReason_timedOut);
          isConnectionClosed = (code = Some DisconnectReason_connectionClosed);
          isBadSession = (code = Some DisconnectReason_badSession);
          isForbidden = (code = Some DisconnectReason_forbidden);
          isMultideviceMismatch = (code = Some DisconnectReason_multideviceMismatch);
          isConnectionReplaced = (code = Some DisconnectReason_connectionReplaced);
          isRestartRequired = (code = Some DisconnectReason_restartRequired);
          isUnavailableService = (code = Some DisconnectReason_unavailableService)
      in
      if isReconnecting s then st
      else if isLoggedOut \<or> isBadSession \<or> isForbidden \<or> isMultideviceMismatch
              \<or> isConnectionReplaced then
        snd (killSession_opt w sessionId (''terminal_'' @ reasonName) st)
      else if isConnectionLost \<or> isTimedOut \<or> isConnectionClosed \<or> isUnavailableService then
        (let n = reconnectAttempts s + 1;
             st1 = put_session sessionId (s\<lparr>reconnectAttempts := n\<rparr>) st
         in if n \<le> MAX_RECONNECT_ATTEMPTS then
              (let baseBackoff = (if isUnavailableService then 5000 else 2000);
                   backoff = min (n * baseBackoff) 30000;
                   st2 = put_session sessionId (s\<lparr>reconnectAttempts := n, isReconnecting := True\<rparr>) st1
               in setTrackedTimeout sessionId
                    (RestartIfNotReconnectingOpt sessionId phone (sock s)) backoff st2)
            else snd (killSession_opt w sessionId ''max_reconnect_attempts'' st1))
      else if isRestartRequired then
        setTrackedTimeout sessionId (RestartClearOpt sessionId phone (sock s)) 2000
          (put_session sessionId (s\<lparr>isReconnecting := True\<rparr>) st)
      else st)"

definition connectionListener ::
  "world \<Rightarrow> string \<Rightarrow> string option \<Rightarrow> nat \<Rightarrow> update \<Rightarrow> opt_state \<Rightarrow> opt_state" where
  "connectionListener w sessionId phone sk u st =
     (case map_of (sessions st) sessionId of
        None \<Rightarrow> st
      | Some s \<Rightarrow>
          let s1 = with_qr u s;
              st1 = on_qr_opt w sessionId u s st
          in if u_connection u = Some ''open''
             then broadcastSessionStatus
                    (emitToSession sessionId ''session:connected'' (user_phone w sk)
                      (put_session sessionId (opened_v2 w s1) st1))
             else if u_connection u = Some ''close''
             then on_close_opt w sessionId phone (u_statusCode u) s1 st1
             else st1)"

text \<open>The sweep calls \<^verbatim>\<open>killSession(id, 'pending_expired')\<close> without awaiting it; as every
  asynchronous function here, the call is run to completion where it is made.\<close>

definition expire_entry_opt ::
  "world \<Rightarrow> string \<times> session \<Rightarrow> bool \<times> opt_state \<Rightarrow> bool \<times> opt_state" where
  "expire_entry_opt w e acc =
     (case e of (ident, s) \<Rightarrow>
        (case acc of (changed, st) \<Rightarrow>
           if startsWith (status_str (status s)) ''pending'' \<and> now w - createdAt s > PENDING_EXPIRE_MS
           then (True, snd (killSession_opt w ident ''pending_expired'' st))
           else (changed, st)))"

definition sweep_opt :: "world \<Rightarrow> opt_state \<Rightarrow> opt_state" where
  "sweep_opt w st =
     (case fold (expire_entry_opt w) (sessions st) (False, st) of
        (changed, st') \<Rightarrow> if changed then broadcastSessionStatus st' else st')"

text \<open>The routes and the restore of \<^verbatim>\<open>server-optimized.js\<close>; here \<^verbatim>\<open>waitForSessionData\<close>
  records its timer under the session id, and the restore stops at the capacity.\<close>

definition waitForSessionData_opt :: "string \<Rightarrow> opt_state \<Rightarrow> opt_state" where
  "waitForSessionData_opt sessionId st = setTrackedTimeout sessionId WaitCleanupOpt 4500 st"

definition route_start_opt ::
  "int option \<Rightarrow> world \<Rightarrow> string \<Rightarrow> string option \<Rightarrow> opt_state \<Rightarrow> opt_state" where
  "route_start_opt M w ident phone st =
     waitForSessionData_opt ident
       (case map_of (sessions st) ident of
          None \<Rightarrow> snd (startSession_opt M w ident phone False st)
        | Some s \<Rightarrow> st)"

definition route_refresh_opt :: "int option \<Rightarrow> world \<Rightarrow> string \<Rightarrow> opt_state \<Rightarrow> opt_state" where
  "route_refresh_opt M w ident st =
     (case map_of (sessions st) ident of
        None \<Rightarrow> st
      | Some s \<Rightarrow>
          waitForSessionData_opt ident (snd (startSession_opt M w ident (phoneNumber s) True st)))"

definition route_delete_opt :: "world \<Rightarrow> string \<Rightarrow> opt_state \<Rightarrow> (nat \<times> string) \<times> opt_state" where
  "route_delete_opt w ident st =
     (case killSession_opt w ident ''api_delete'' st of
        (ok, st') \<Rightarrow>
          if \<not> ok then ((404, ''SESSION_NOT_FOUND''), st')
          else ((200, ''Session killed permanently''), st'))"

definition route_logout_opt :: "world \<Rightarrow> string \<Rightarrow> opt_state \<Rightarrow> completion \<times> opt_state" where
  "route_logout_opt w ident st =
     (case map_of (sessions st) ident of
        None \<Rightarrow> (Resolved, st)
      | Some s \<Rightarrow>
          let st1 = invoke (SockLogout (sock s)) st
          in if throws w (SockLogout (sock s)) then (Rejected, st1)
             else (Resolved,
                   broadcastSessionStatus
                     (delete_session ident
                        (clearSessionTimers ident (cleanupSessionRedis w ident (authRedis s) st1)))))"

definition restore_one_opt :: "int option \<Rightarrow> string \<times> world \<Rightarrow> opt_state \<Rightarrow> opt_state" where
  "restore_one_opt M e st =
     (case e of (ident, w) \<Rightarrow>
        (case map_of (sessions st) ident of
           None \<Rightarrow>
             if lt_js (length (sessions st)) M then snd (startSession_opt M w ident None False st)
             else st
         | Some s \<Rightarrow> st))"

definition restoreSessions_opt :: "int option \<Rightarrow> (string \<times> world) list \<Rightarrow> opt_state \<Rightarrow> opt_state" where
  "restoreSessions_opt M found st = broadcastSessionStatus (fold (restore_one_opt M) found st)"

subsection \<open>Reachable states\<close>

text \<open>The servers start with an empty registry and no timer.\<close>

definition init_state :: "cb state" where
  "init_state = \<lparr>sessions = [], timers = [], next_timer = 0, fresh = 0, effects = []\<rparr>"

definition init_opt :: opt_state where
  "init_opt = \<lparr>sessions = [], timers = [], next_timer = 0, fresh = 0, effects = [],
               sessionTimers = []\<rparr>"

text \<open>
  The states each server can be in: from the empty registry, any sequence of routes,
  restores, connection updates, timer firings and sweep ticks, each run to completion in
  any world. A connection update may come from any listener, that is, with any captured
  \<^verbatim>\<open>sessionId\<close>, \<^verbatim>\<open>phoneNumber\<close> and \<^verbatim>\<open>sock\<close>; a timer may fire whatever its delay. The
  last rule stands for the replies and for \<^verbatim>\<open>/send-message\<close>, which add effects only.
\<close>

inductive reachable_v1 :: "cb state \<Rightarrow> bool" where
  v1_init: "reachable_v1 init_state"
| v1_restore: "reachable_v1 st \<Longrightarrow> reachable_v1 (restoreSessions found st)"
| v1_start: "reachable_v1 st \<Longrightarrow> reachable_v1 (route_start w ident phone st)"
| v1_refresh: "reachable_v1 st \<Longrightarrow> reachable_v1 (route_refresh w ident st)"
| v1_delete: "reachable_v1 st \<Longrightarrow> reachable_v1 (snd (route_delete w ident st))"
| v1_logout: "reachable_v1 st \<Longrightarrow> reachable_v1 (snd (route_logout w ident st))"
| v1_update: "reachable_v1 st \<Longrightarrow> reachable_v1 (snd (connection_update_v1 w sessionId phone sk u st))"
| v1_timer: "reachable_v1 st \<Longrightarrow> reachable_v1 (fire w t st)"
| v1_tick: "reachable_v1 st \<Longrightarrow> reachable_v1 (sweep w st)"
| v1_effects: "reachable_v1 st \<Longrightarrow> reachable_v1 (st\<lparr>effects := effects st @ es\<rparr>)"

inductive reachable_opt :: "int option \<Rightarrow> opt_state \<Rightarrow> bool" for M :: "int option" where
  opt_init: "reachable_opt M init_opt"
| opt_restore: "reachable_opt M st \<Longrightarrow> reachable_opt M (restoreSessions_opt M found st)"
| opt_start: "reachable_opt M st \<Longrightarrow> reachable_opt M (route_start_opt M w ident phone st)"
| opt_refresh: "reachable_opt M st \<Longrightarrow> reachable_opt M (route_refresh_opt M w ident st)"
| opt_delete: "reachable_opt M st \<Longrightarrow> reachable_opt M (snd (route_delete_opt w ident st))"
| opt_logout: "reachable_opt M st \<Longrightarrow> reachable_opt M (snd (route_logout_opt w ident st))"
| opt_update: "reachable_opt M st \<Longrightarrow> reachable_opt M (connectionListener w sessionId phone sk u st)"
| opt_timer: "reachable_opt M st \<Longrightarrow> reachable_opt M (fire_opt M w t st)"
| opt_tick: "reachable_opt M st \<Longrightarrow> reachable_opt M (sweep_opt w st)"
| opt_effects: "reachable_opt M st \<Longrightarrow> reachable_opt M (st\<lparr>effects := effects st @ es\<rparr>)"

subsection \<open>Auxiliary definitions\<close>

text \<open>The statements of \<^verbatim>\<open>startSession\<close> from \<^verbatim>\<open>useRedisAuthState\<close> on, named so that
  \<open>startSession\<close> can be read as guard, teardown and \<open>install\<close>.\<close>

definition install :: "world \<Rightarrow> string \<Rightarrow> string option \<Rightarrow> cb state \<Rightarrow> cb state" where
  "install w sessionId phone st =
     (let st4 = broadcastSessionStatus
                  (put_session sessionId (new_session (Suc (fresh st)) (fresh st) phone (now w))
                    (st\<lparr>fresh := fresh st + 2\<rparr>))
      in case phone of
           None \<Rightarrow> st4
         | Some p \<Rightarrow>
             if p \<noteq> [] \<and> \<not> registered w
             then setTimeout (PairingCb sessionId (Suc (fresh st)) p) 1200 st4
             else st4)"

definition install_opt :: "world \<Rightarrow> string \<Rightarrow> string option \<Rightarrow> opt_state \<Rightarrow> opt_state" where
  "install_opt w sessionId phone st =
     (let st4 = broadcastSessionStatus
                  (put_session sessionId (new_session (Suc (fresh st)) (fresh st) phone (now w))
                    (st\<lparr>fresh := fresh st + 2\<rparr>))
      in case phone of
           None \<Rightarrow> st4
         | Some p \<Rightarrow>
             if p \<noteq> [] \<and> \<not> registered w
             then setTrackedTimeout sessionId (PairingOpt sessionId (Suc (fresh st)) p) 1200 st4
             else st4)"

text \<open>Every socket in the registry was handed out earlier: its number is below the
  counter.\<close>

definition handles_allocated :: "('cb, 'm) state_scheme \<Rightarrow> bool" where
  "handles_allocated st = list_all (\<lambda>e. sock (snd e) < fresh st) (sessions st)"

text \<open>The registry is a JavaScript object: no key occurs twice.\<close>

definition keys_distinct :: "('cb, 'm) state_scheme \<Rightarrow> bool" where
  "keys_distinct st = distinct (map fst (sessions st))"

text \<open>The condition under which the sweeps destroy a record.\<close>

definition expired_pending :: "int \<Rightarrow> session \<Rightarrow> bool" where
  "expired_pending t s =
     (startsWith (status_str (status s)) ''pending'' \<and> t - createdAt s > PENDING_EXPIRE_MS)"



text \<open>The timer handles recorded for a session id.\<close>

definition tracked :: "opt_state \<Rightarrow> string \<Rightarrow> nat list" where
  "tracked st sessionId = (case map_of (sessionTimers st) sessionId of None \<Rightarrow> [] | Some hs \<Rightarrow> hs)"

text \<open>
  The invariant behind the exclusion of the two pending artifacts in
  \<^verbatim>\<open>server-optimized.js\<close>: a record waiting for a QR scan holds no pairing code and any
  other record holds no QR payload (\<open>tidy\<close>), and every pending pairing-code timer is
  recorded under its session id, whose record exists and is not waiting for a QR scan.
\<close>

definition tidy :: "session \<Rightarrow> bool" where
  "tidy r = ((status r = PendingQr \<longrightarrow> pairingCode r = None) \<and> (status r \<noteq> PendingQr \<longrightarrow> qr r = None))"

definition records_ok :: "('cb, 'm) state_scheme \<Rightarrow> bool" where
  "records_ok st = (\<forall>k r. map_of (sessions st) k = Some r \<longrightarrow> tidy r)"

definition pairing_ok :: "opt_state \<Rightarrow> bool" where
  "pairing_ok st =
     (\<forall>h ms k sk p. (h, ms, PairingOpt k sk p) \<in> set (timers st) \<longrightarrow>
        h \<in> set (tracked st k) \<and> (\<exists>r. map_of (sessions st) k = Some r \<and> status r \<noteq> PendingQr))"

definition artifacts_ok :: "opt_state \<Rightarrow> bool" where
  "artifacts_ok st = (records_ok st \<and> pairing_ok st)"

subsection \<open>Example values\<close>

text \<open>A world in which no call throws, at time \<open>t\<close>.\<close>

definition calm :: "int \<Rightarrow> world" where
  "calm t = \<lparr>now = t, throws = (\<lambda>c. False), registered = False, pairing_result = ''ABCD1234'',
             data_url = (\<lambda>q. ''data:'' @ q), err_message = (\<lambda>c. ''error''),
             user_phone = (\<lambda>k. ''628'')\<rparr>"

text \<open>A world in which every guarded call throws.\<close>

definition stormy :: "int \<Rightarrow> world" where
  "stormy t = (calm t)\<lparr>throws := (\<lambda>c. True)\<rparr>"

text \<open>A session started without a phone number, as \<^verbatim>\<open>GET /start/bot1\<close> leaves it.\<close>

definition bot1_pending :: "cb state" where
  "bot1_pending = snd (startSession (calm 0) ''bot1'' None False init_state)"

text \<open>The same session after \<^verbatim>\<open>server-2.js\<close> has handled a close with code 408.\<close>

definition bot1_reconnecting_v2 :: "cb state" where
  "bot1_reconnecting_v2 =
     snd (connection_update_v2 (calm 1000) ''bot1'' None 1 (close_event (Some 408)) bot1_pending)"

text \<open>The same session after \<^verbatim>\<open>server.js\<close> has handled a close with code 515.\<close>

definition bot1_restarting_v1 :: "cb state" where
  "bot1_restarting_v1 =
     snd (connection_update_v1 (calm 1000) ''bot1'' None 1 (close_event (Some 515)) bot1_pending)"

text \<open>The same session with five reconnect attempts counted.\<close>

definition bot1_exhausted_v2 :: "cb state" where
  "bot1_exhausted_v2 =
     put_session ''bot1'' ((new_session 1 0 None 0)\<lparr>reconnectAttempts := 5\<rparr>) bot1_pending"

text \<open>\<^verbatim>\<open>server-optimized.js\<close> with \<^verbatim>\<open>MAX_SESSIONS=1\<close> after \<^verbatim>\<open>GET /start/bot1\<close>.\<close>

definition bot1_pending_opt :: opt_state where
  "bot1_pending_opt = snd (startSession_opt (Some 1) (calm 0) ''bot1'' None False init_opt)"



section \<open>Properties\<close>

subsection \<open>Unfolding and evaluation\<close>

lemmas effect_defs = invoke_def emitToSession_def broadcastSessionStatus_def setTimeout_def
  put_session_def delete_session_def new_effects_def

lemmas example_defs = init_state_def init_opt_def calm_def stormy_def bot1_pending_def
  bot1_reconnecting_v2_def bot1_restarting_v1_def bot1_exhausted_v2_def
  bot1_pending_opt_def

lemmas run_defs = connection_update_v1_def connection_update_v2_def close_chain_v1_def
  close_tail_v1_def on_close_v2_def purge_delete_v1_def deleteKeys_def startSession_def
  new_session_def killSession_def DisconnectReason_defs effect_defs Let_def
  accepted_qr_def with_qr_def on_qr_def close_event_def andThen_def spec_classify_def


lemma map_of_update_same: "map_of (AList.update k v al) k = Some v"
  by (simp add: update_conv')


text \<open>The fields of a state after each helper.\<close>

lemma proj_simps [simp]:
  "sessions (invoke c st) = sessions st" "timers (invoke c st) = timers st"
  "next_timer (invoke c st) = next_timer st" "fresh (invoke c st) = fresh st"
  "effects (invoke c st) = effects st @ [Call c]"
  "sessions (emitToSession i e d st) = sessions st" "timers (emitToSession i e d st) = timers st"
  "next_timer (emitToSession i e d st) = next_timer st" "fresh (emitToSession i e d st) = fresh st"
  "effects (emitToSession i e d st) = effects st @ [Emit i e d]"
  "sessions (broadcastSessionStatus st) = sessions st"
  "timers (broadcastSessionStatus st) = timers st"
  "next_timer (broadcastSessionStatus st) = next_timer st"
  "fresh (broadcastSessionStatus st) = fresh st"
  "effects (broadcastSessionStatus st) = effects st @ [Broadcast]"
  "sessions (setTimeout cb ms st) = sessions st"
  "timers (setTimeout cb ms st) = timers st @ [(next_timer st, ms, cb)]"
  "next_timer (setTimeout cb ms st) = Suc (next_timer st)"
  "fresh (setTimeout cb ms st) = fresh st"
  "effects (setTimeout cb ms st) = effects st"
  "sessions (put_session i r st) = AList.update i r (sessions st)"
  "timers (put_session i r st) = timers st"
  "next_timer (put_session i r st) = next_timer st" "fresh (put_session i r st) = fresh st"
  "effects (put_session i r st) = effects st"
  "sessions (delete_session i st) = AList.delete i (sessions st)"
  "timers (delete_session i st) = timers st"
  "next_timer (delete_session i st) = next_timer st" "fresh (delete_session i st) = fresh st"
  "effects (delete_session i st) = effects st"
  by (simp_all add: effect_defs)

lemma close_event_simps [simp]:
  "u_connection (close_event c) = Some ''close''"
  "u_qr (close_event c) = None"
  "u_statusCode (close_event c) = c"
  by (simp_all add: close_event_def)

lemma close_no_qr [simp]:
  "accepted_qr (close_event c) s = None"
  "with_qr (close_event c) s = s"
  "on_qr w sid (close_event c) s st = (Resolved, st)"
  "on_qr_opt w sid (close_event c) s ost = ost"
  by (simp_all add: accepted_qr_def with_qr_def on_qr_def on_qr_opt_def)

lemma andThen_simps [simp]:
  "andThen (Resolved, st) k = k st"
  "andThen (Rejected, st) k = (Rejected, st)"
  by (simp_all add: andThen_def)

text \<open>What each listener does with a close event when the record exists.\<close>

lemma v1_close:
  "map_of (sessions st) sid = Some s \<Longrightarrow>
   connection_update_v1 w sid phone sk (close_event c) st =
     andThen (close_chain_v1 w sid phone c s st) (close_tail_v1 w sid phone c s)"
  by (simp add: connection_update_v1_def)

lemma v2_close:
  "map_of (sessions st) sid = Some s \<Longrightarrow>
   connection_update_v2 w sid phone sk (close_event c) st = on_close_v2 w sid phone c s st"
  by (simp add: connection_update_v2_def)

lemma opt_close:
  "map_of (sessions st) sid = Some s \<Longrightarrow>
   connectionListener w sid phone sk (close_event c) st = on_close_opt w sid phone c s st"
  by (simp add: connectionListener_def)



lemma unknown_codes:
  "spec_classify code = Unknown \<longleftrightarrow>
     code \<notin> {Some 401, Some 500, Some 403, Some 411, Some 440, Some 408, Some 428, Some 503,
              Some 515}"
  by (simp add: spec_classify_def)


subsection \<open>Terminal close\<close>






subsection \<open>Transient close\<close>

text \<open>A forced start of an id that has a record ends the old socket and stores a fresh
  record.\<close>

lemma startSession_force_record:
  "map_of (sessions st) sessionId = Some s \<Longrightarrow>
   map_of (sessions (snd (startSession w sessionId phone True st))) sessionId
     = Some (new_session (Suc (fresh st)) (fresh st) phone (now w))"
  by (simp add: startSession_def Let_def effect_defs map_of_update_same split: option.split)

lemma startSession_force_ends_socket:
  "map_of (sessions st) sessionId = Some s \<Longrightarrow>
   Call (SockEnd (sock s)) \<in> set (new_effects st (snd (startSession w sessionId phone True st)))"
  by (simp add: startSession_def Let_def effect_defs split: option.split)











subsection \<open>The re-entrancy guard\<close>

text \<open>In \<^verbatim>\<open>server-2.js\<close> a close event on a record whose flag is set changes nothing.\<close>

lemma close_ignored_while_reconnecting_v2:
  "map_of (sessions st) sessionId = Some s \<Longrightarrow> isReconnecting s \<Longrightarrow>
   connection_update_v2 w sessionId phone sk (close_event code) st = (Resolved, st)"
  by (simp add: v2_close on_close_v2_def)

text \<open>
  C5 at its failing input. In \<^verbatim>\<open>server.js\<close> the branch for code 515 logs "already
  reconnecting, skipping" and goes on: a record whose \<open>isReconnecting\<close> flag is set and
  which already has its restart timers receives a second close with code 515, and two
  more restarts are scheduled (the one of the branch, and the one of the trailing
  \<^verbatim>\<open>else\<close>).
\<close>

theorem restart_required_rescheduled_v1:
  "map_of (sessions bot1_restarting_v1) ''bot1''
      = Some ((new_session 1 0 None 0)\<lparr>isReconnecting := True\<rparr>)
 \<and> timers bot1_restarting_v1
      = [(0, 2000, RestartUnlessKillingCb ''bot1'' None), (1, 3000, RestartCb ''bot1'' None)]
 \<and> timers (snd (connection_update_v1 (calm 1500) ''bot1'' None 1 (close_event (Some 515))
        bot1_restarting_v1))
      = timers bot1_restarting_v1
        @ [(2, 2000, RestartUnlessKillingCb ''bot1'' None), (3, 3000, RestartCb ''bot1'' None)]"
  by (simp add: example_defs run_defs)

subsection \<open>Unknown close\<close>

text \<open>
  C6, as the code has it. For a close event whose code is none of the classified ones
  (an absent code included) and a record in the registry: the listener of
  \<^verbatim>\<open>server-2.js\<close> changes nothing at all; the listener of \<^verbatim>\<open>server.js\<close> leaves the registry
  as it is and schedules exactly one timer, of 3000 ms, whose callback restarts the
  session with \<^verbatim>\<open>force = true\<close> if a record still exists then.
\<close>

theorem unknown_close_v2_logs_v1_retries:
  assumes "spec_classify code = Unknown"
    and "map_of (sessions st) sessionId = Some s"
  shows "connection_update_v2 w sessionId phone sk (close_event code) st = (Resolved, st)
       \<and> connection_update_v1 w sessionId phone sk (close_event code) st
           = (Resolved, setTimeout (RestartCb sessionId phone) 3000 st)
       \<and> sessions (setTimeout (RestartCb sessionId phone) 3000 st) = sessions st
       \<and> timers (setTimeout (RestartCb sessionId phone) 3000 st)
           = timers st @ [(next_timer st, 3000, RestartCb sessionId phone)]"
  using assms
  by (simp add: unknown_codes v1_close v2_close close_chain_v1_def close_tail_v1_def
      on_close_v2_def DisconnectReason_defs setTimeout_def)

theorem unknown_close_v2_logs_v1_retries_witness:
  "spec_classify (Some 999) = Unknown
 \<and> map_of (sessions bot1_pending) ''bot1'' = Some (new_session 1 0 None 0)
 \<and> connection_update_v2 (calm 5) ''bot1'' None 1 (close_event (Some 999)) bot1_pending
      = (Resolved, bot1_pending)
 \<and> timers (snd (connection_update_v1 (calm 5) ''bot1'' None 1 (close_event (Some 999)) bot1_pending))
      = [(0, 3000, RestartCb ''bot1'' None)]"
  using unknown_close_v2_logs_v1_retries [of "Some 999" bot1_pending "''bot1''"
      "new_session 1 0 None 0" "calm 5" None 1]
  by (simp add: example_defs run_defs)

text \<open>C6 as stated fails in \<^verbatim>\<open>server.js\<close>: a close without a status code schedules a
  restart.\<close>

theorem unknown_close_schedules_restart_v1:
  "spec_classify None = Unknown
 \<and> map_of (sessions bot1_pending) ''bot1'' = Some (new_session 1 0 None 0)
 \<and> timers bot1_pending = []
 \<and> timers (snd (connection_update_v1 (calm 5) ''bot1'' None 1 (close_event None) bot1_pending))
      = [(0, 3000, RestartCb ''bot1'' None)]"
  by (simp add: example_defs run_defs)

subsection \<open>Capacity\<close>



subsection \<open>Explicit kill\<close>



subsection \<open>Events for an id without a record\<close>



subsection \<open>The allocation invariant\<close>

text \<open>\<open>startSession\<close> as guard, teardown and \<open>install\<close>.\<close>

lemma set_update_cases:
  "e \<in> set (AList.update k v al) \<Longrightarrow> e = (k, v) \<or> e \<in> set al"
  by (induction al) (auto split: if_splits)

lemma set_delete_subset: "e \<in> set (AList.delete k al) \<Longrightarrow> e \<in> set al"
  by (simp add: AList.delete_eq)

lemma startSession_unfold:
  "startSession w sessionId phone force st =
     (case map_of (sessions st) sessionId of
        None \<Rightarrow> (Started, install w sessionId phone st)
      | Some e \<Rightarrow>
          if force
          then (Started, install w sessionId phone
                           (delete_session sessionId (invoke (SockEnd (sock e)) st)))
          else if status e = Connected then (AlreadyConnected, st)
          else (Started, install w sessionId phone st))"
  by (simp add: startSession_def install_def Let_def split: option.split)

lemma startSession_opt_unfold:
  "startSession_opt M w sessionId phone force st =
     (case map_of (sessions st) sessionId of
        None \<Rightarrow>
          if ge_js (length (sessions st)) M then (MaxSessionsReached, st)
          else (Started, install_opt w sessionId phone st)
      | Some e \<Rightarrow>
          if force
          then (Started, install_opt w sessionId phone
                           (delete_session sessionId
                              (clearSessionTimers sessionId (cleanupSessionSocket w (sock e) st))))
          else if status e = Connected then (AlreadyConnected, st)
          else (Started, install_opt w sessionId phone st))"
  by (simp add: startSession_opt_def install_opt_def Let_def split: option.split)

lemma opt_proj_simps [simp]:
  "sessions (clearSessionTimers i ost) = sessions ost"
  "fresh (clearSessionTimers i ost) = fresh ost"
  "effects (clearSessionTimers i ost) = effects ost"
  "next_timer (clearSessionTimers i ost) = next_timer ost"
  "sessions (addSessionTimer i h ost) = sessions ost"
  "fresh (addSessionTimer i h ost) = fresh ost"
  "effects (addSessionTimer i h ost) = effects ost"
  "timers (addSessionTimer i h ost) = timers ost"
  "next_timer (addSessionTimer i h ost) = next_timer ost"
  "sessions (setTrackedTimeout i c ms ost) = sessions ost"
  "fresh (setTrackedTimeout i c ms ost) = fresh ost"
  "effects (setTrackedTimeout i c ms ost) = effects ost"
  "timers (setTrackedTimeout i c ms ost) = timers ost @ [(next_timer ost, ms, c)]"
  "next_timer (setTrackedTimeout i c ms ost) = Suc (next_timer ost)"
  "sessions (cleanupSessionSocket w k ost) = sessions ost"
  "fresh (cleanupSessionSocket w k ost) = fresh ost"
  "timers (cleanupSessionSocket w k ost) = timers ost"
  "next_timer (cleanupSessionSocket w k ost) = next_timer ost"
  "sessionTimers (cleanupSessionSocket w k ost) = sessionTimers ost"
  "sessions (cleanupSessionRedis w i n ost) = sessions ost"
  "fresh (cleanupSessionRedis w i n ost) = fresh ost"
  "timers (cleanupSessionRedis w i n ost) = timers ost"
  "next_timer (cleanupSessionRedis w i n ost) = next_timer ost"
  "sessionTimers (cleanupSessionRedis w i n ost) = sessionTimers ost"
  "effects (cleanupSessionRedis w i n ost)
     = effects ost @ [Call (DeleteKeysWithPattern n (i @ '':*''))]"
  by (simp_all add: clearSessionTimers_def addSessionTimer_def setTrackedTimeout_def
      cleanupSessionSocket_def cleanupSessionRedis_def Let_def effect_defs split: option.split)

lemma sessionTimers_simple [simp]:
  "sessionTimers (invoke c ost) = sessionTimers ost"
  "sessionTimers (emitToSession i e d ost) = sessionTimers ost"
  "sessionTimers (broadcastSessionStatus ost) = sessionTimers ost"
  "sessionTimers (setTimeout cb ms ost) = sessionTimers ost"
  "sessionTimers (put_session i r ost) = sessionTimers ost"
  "sessionTimers (delete_session i ost) = sessionTimers ost"
  by (simp_all add: effect_defs)

lemma alloc_lookup:
  "handles_allocated st \<Longrightarrow> map_of (sessions st) k = Some s \<Longrightarrow> sock s < fresh st"
  by (fastforce simp: handles_allocated_def list_all_iff dest: map_of_SomeD)

lemma alloc_same:
  "sessions st' = sessions st \<Longrightarrow> fresh st' = fresh st \<Longrightarrow>
   handles_allocated st' = handles_allocated st"
  by (simp add: handles_allocated_def)

lemma alloc_put:
  "handles_allocated st \<Longrightarrow> sock r < fresh st \<Longrightarrow> handles_allocated (put_session k r st)"
  by (auto simp: handles_allocated_def list_all_iff dest: set_update_cases)

lemma alloc_delete:
  "handles_allocated st \<Longrightarrow> handles_allocated (delete_session k st)"
  by (auto simp: handles_allocated_def list_all_iff dest: set_delete_subset)

lemma alloc_simple [simp]:
  "handles_allocated (invoke c st) = handles_allocated st"
  "handles_allocated (emitToSession i e d st) = handles_allocated st"
  "handles_allocated (broadcastSessionStatus st) = handles_allocated st"
  "handles_allocated (setTimeout cb ms st) = handles_allocated st"
  "handles_allocated (clearSessionTimers i ost) = handles_allocated ost"
  "handles_allocated (setTrackedTimeout i c' ms ost) = handles_allocated ost"
  "handles_allocated (cleanupSessionSocket w k ost) = handles_allocated ost"
  "handles_allocated (cleanupSessionRedis w i k ost) = handles_allocated ost"
  by (simp_all add: handles_allocated_def)

lemma alloc_new_record:
  assumes "handles_allocated st" and "fresh st \<le> sk" and "sk < n"
  shows "handles_allocated (put_session k (new_session sk c phone t) (st\<lparr>fresh := n\<rparr>))"
proof -
  have "sock (snd e) < n"
    if "e \<in> set (AList.update k (new_session sk c phone t) (sessions st))" for e
    using set_update_cases [OF that] assms
    by (auto simp: handles_allocated_def list_all_iff new_session_def)
  then show ?thesis
    by (simp add: handles_allocated_def list_all_iff put_session_def)
qed

lemma alloc_install:
  assumes "handles_allocated st"
  shows "handles_allocated (install w sessionId phone st)"
proof -
  have "handles_allocated
          (put_session sessionId (new_session (Suc (fresh st)) (fresh st) phone (now w))
            (st\<lparr>fresh := fresh st + 2\<rparr>))"
    by (rule alloc_new_record [OF assms]) simp_all
  then show ?thesis
    unfolding install_def Let_def by (cases phone) simp_all
qed

lemma alloc_install_opt:
  assumes "handles_allocated ost"
  shows "handles_allocated (install_opt w sessionId phone ost)"
proof -
  have "handles_allocated
          (put_session sessionId (new_session (Suc (fresh ost)) (fresh ost) phone (now w))
            (ost\<lparr>fresh := fresh ost + 2\<rparr>))"
    by (rule alloc_new_record [OF assms]) simp_all
  then show ?thesis
    unfolding install_opt_def Let_def by (cases phone) simp_all
qed

lemma alloc_init: "handles_allocated init_state" "handles_allocated init_opt"
  by (simp_all add: handles_allocated_def init_state_def init_opt_def)

lemma alloc_startSession:
  "handles_allocated st \<Longrightarrow> handles_allocated (snd (startSession w sessionId phone force st))"
  by (simp add: startSession_unfold alloc_install alloc_delete split: option.split)

lemma alloc_startSession_opt:
  "handles_allocated ost \<Longrightarrow>
   handles_allocated (snd (startSession_opt M w sessionId phone force ost))"
  by (simp add: startSession_opt_unfold alloc_install_opt alloc_delete split: option.split)

lemma alloc_killSession:
  "handles_allocated st \<Longrightarrow> handles_allocated (snd (killSession w sessionId reason st))"
  by (simp add: killSession_def Let_def alloc_delete split: option.split)

lemma alloc_killSession_opt:
  "handles_allocated ost \<Longrightarrow> handles_allocated (snd (killSession_opt w sessionId reason ost))"
  by (simp add: killSession_opt_def Let_def alloc_delete split: option.split)

lemma alloc_andThen:
  assumes "handles_allocated (snd r)"
    and "\<And>st. handles_allocated st \<Longrightarrow> fresh st = fresh (snd r) \<Longrightarrow> handles_allocated (snd (k st))"
  shows "handles_allocated (snd (andThen r k))"
proof (cases r)
  case (Pair c st)
  then show ?thesis using assms by (cases c) (simp_all add: andThen_def)
qed

lemma fresh_killSession [simp]: "fresh (snd (killSession w sessionId reason st)) = fresh st"
  by (simp add: killSession_def Let_def split: option.split)

lemma fresh_killSession_opt [simp]: "fresh (snd (killSession_opt w sessionId reason ost)) = fresh ost"
  by (simp add: killSession_opt_def Let_def split: option.split)

lemma alloc_on_qr:
  "handles_allocated st \<Longrightarrow> sock s < fresh st \<Longrightarrow>
   handles_allocated (snd (on_qr w sessionId u s st)) \<and> fresh (snd (on_qr w sessionId u s st)) = fresh st"
  by (simp add: on_qr_def Let_def alloc_put split: option.split)

lemma alloc_on_qr_opt:
  "handles_allocated ost \<Longrightarrow> sock s < fresh ost \<Longrightarrow>
   handles_allocated (on_qr_opt w sessionId u s ost) \<and> fresh (on_qr_opt w sessionId u s ost) = fresh ost"
  by (simp add: on_qr_opt_def Let_def alloc_put split: option.split)

lemma sock_with_qr [simp]: "sock (with_qr u s) = sock s"
  by (simp add: with_qr_def split: option.split)

lemma alloc_deleteKeys [simp]:
  "handles_allocated (snd (deleteKeys w c sessionId st)) = handles_allocated st"
  "fresh (snd (deleteKeys w c sessionId st)) = fresh st"
  by (simp_all add: deleteKeys_def Let_def)

lemma alloc_on_close_v2:
  assumes "handles_allocated st" and "sock s < fresh st"
  shows "handles_allocated (snd (on_close_v2 w sessionId phone code s st))"
  unfolding on_close_v2_def Let_def
  using assms
  by (auto intro!: alloc_andThen simp: alloc_delete alloc_put alloc_killSession)

lemma alloc_purge_delete_v1:
  "handles_allocated st \<Longrightarrow> handles_allocated (snd (purge_delete_v1 w sessionId s notice st))"
  unfolding purge_delete_v1_def Let_def
  by (auto intro!: alloc_andThen simp: alloc_delete split: option.split)

lemma fresh_andThen:
  assumes "fresh (snd r) = n" and "\<And>st. fresh st = n \<Longrightarrow> fresh (snd (k st)) = n"
  shows "fresh (snd (andThen r k)) = n"
proof (cases r)
  case (Pair c st)
  then show ?thesis using assms by (cases c) (simp_all add: andThen_def)
qed

lemma fresh_purge_delete_v1 [simp]:
  "fresh (snd (purge_delete_v1 w sessionId s notice st)) = fresh st"
  unfolding purge_delete_v1_def Let_def
  by (rule fresh_andThen) (simp_all split: option.split)

lemma alloc_close_chain_v1:
  assumes "handles_allocated st" and "sock s < fresh st"
  shows "handles_allocated (snd (close_chain_v1 w sessionId phone code s st))"
    and "fresh (snd (close_chain_v1 w sessionId phone code s st)) = fresh st"
  using assms
  by (simp_all add: close_chain_v1_def Let_def alloc_purge_delete_v1 alloc_put alloc_killSession)

lemma alloc_close_tail_v1:
  "handles_allocated st \<Longrightarrow> sock s < fresh st \<Longrightarrow>
   handles_allocated (snd (close_tail_v1 w sessionId phone code s st))"
  by (simp add: close_tail_v1_def Let_def alloc_put alloc_killSession)

lemma alloc_on_close_opt:
  "handles_allocated ost \<Longrightarrow> sock s < fresh ost \<Longrightarrow>
   handles_allocated (on_close_opt w sessionId phone code s ost)"
  by (simp add: on_close_opt_def Let_def alloc_put alloc_killSession_opt)

text \<open>Every operation of the three servers keeps the sockets of the registry below the
  counter, so \<open>handles_allocated\<close> holds in every reachable state.\<close>

lemma alloc_connection_update_v1:
  assumes "handles_allocated st"
  shows "handles_allocated (snd (connection_update_v1 w sessionId phone sk u st))"
proof (cases "map_of (sessions st) sessionId")
  case None
  then show ?thesis using assms by (simp add: connection_update_v1_def)
next
  case (Some s)
  have s: "sock s < fresh st" by (rule alloc_lookup [OF assms Some])
  show ?thesis
    unfolding connection_update_v1_def Let_def
    using assms s Some
    by (auto intro!: alloc_andThen
        simp: alloc_on_qr alloc_put alloc_close_chain_v1 alloc_close_tail_v1 opened_v1_def)
qed

lemma alloc_connection_update_v2:
  assumes "handles_allocated st"
  shows "handles_allocated (snd (connection_update_v2 w sessionId phone sk u st))"
proof (cases "map_of (sessions st) sessionId")
  case None
  then show ?thesis using assms by (simp add: connection_update_v2_def)
next
  case (Some s)
  have s: "sock s < fresh st" by (rule alloc_lookup [OF assms Some])
  show ?thesis
    unfolding connection_update_v2_def Let_def
    using assms s Some
    by (auto intro!: alloc_andThen
        simp: alloc_on_qr alloc_put alloc_on_close_v2 opened_v2_def)
qed

lemma alloc_connectionListener:
  assumes "handles_allocated ost"
  shows "handles_allocated (connectionListener w sessionId phone sk u ost)"
proof (cases "map_of (sessions ost) sessionId")
  case None
  then show ?thesis using assms by (simp add: connectionListener_def)
next
  case (Some s)
  have s: "sock s < fresh ost" by (rule alloc_lookup [OF assms Some])
  show ?thesis
    unfolding connectionListener_def Let_def
    using assms s Some
    by (simp add: alloc_on_qr_opt alloc_put alloc_on_close_opt opened_v2_def)
qed

lemma alloc_put_modified:
  assumes "handles_allocated st" and "map_of (sessions st) k = Some s" and "sock r = sock s"
    and "sessions st' = sessions st" and "fresh st' = fresh st"
  shows "handles_allocated (put_session k r st')"
proof -
  have "handles_allocated st'" using assms(1,4,5) by (simp add: handles_allocated_def)
  moreover have "sock r < fresh st'" using alloc_lookup [OF assms(1,2)] assms(3,5) by simp
  ultimately show ?thesis by (rule alloc_put)
qed

lemma alloc_clear_flag:
  "handles_allocated st \<Longrightarrow> map_of (sessions st) i = Some s \<Longrightarrow>
   handles_allocated (put_session i (s\<lparr>isReconnecting := False\<rparr>) st)"
  by (rule alloc_put_modified [where s = s and st = st]) simp_all

lemma alloc_run_cb:
  assumes "handles_allocated st"
  shows "handles_allocated (run_cb w c st)"
proof (cases c)
  case (PairingCb i k p)
  then show ?thesis using assms
    by (auto simp: Let_def intro!: alloc_put_modified [OF assms] split: option.split)
next
  case (RestartCb i p)
  then show ?thesis using assms by (simp add: alloc_startSession split: option.split)
next
  case (RestartUnlessKillingCb i p)
  then show ?thesis using assms by (simp add: alloc_startSession split: option.split)
next
  case (RestartClearCb i p k)
  then show ?thesis using assms
    by (auto simp: Let_def alloc_startSession alloc_clear_flag split: option.split)
next
  case WaitCleanupCb
  then show ?thesis using assms by simp
qed

lemma alloc_run_cb_opt:
  assumes "handles_allocated ost"
  shows "handles_allocated (run_cb_opt M w c ost)"
proof (cases c)
  case (PairingOpt i k p)
  then show ?thesis using assms
    by (auto simp: Let_def intro!: alloc_put_modified [OF assms] split: option.split)
next
  case (RestartIfNotReconnectingOpt i p k)
  then show ?thesis using assms
    by (auto simp: Let_def alloc_startSession_opt alloc_clear_flag split: option.split)
next
  case (RestartClearOpt i p k)
  then show ?thesis using assms
    by (auto simp: Let_def alloc_startSession_opt alloc_clear_flag split: option.split)
next
  case WaitCleanupOpt
  then show ?thesis using assms by simp
qed

lemma alloc_timers_update [simp]:
  "handles_allocated (st\<lparr>timers := ts\<rparr>) = handles_allocated st"
  "handles_allocated (st\<lparr>effects := es\<rparr>) = handles_allocated st"
  by (simp_all add: handles_allocated_def)

lemma alloc_fire:
  "handles_allocated st \<Longrightarrow> handles_allocated (fire w t st)"
  by (simp add: fire_def alloc_run_cb split: option.split)

lemma alloc_fire_opt:
  "handles_allocated ost \<Longrightarrow> handles_allocated (fire_opt M w t ost)"
  by (simp add: fire_opt_def alloc_run_cb_opt split: option.split)

lemma alloc_sweep_fold:
  "handles_allocated st \<Longrightarrow> handles_allocated (snd (fold (expire_entry t) es (c, st)))"
  by (induction es arbitrary: c st) (auto simp: expire_entry_def alloc_delete)

lemma alloc_sweep: "handles_allocated st \<Longrightarrow> handles_allocated (sweep w st)"
  using alloc_sweep_fold [of st "now w" "sessions st" False]
  by (cases "fold (expire_entry (now w)) (sessions st) (False, st)") (simp add: sweep_def)

lemma alloc_sweep_opt_fold:
  "handles_allocated ost \<Longrightarrow> handles_allocated (snd (fold (expire_entry_opt w) es (c, ost)))"
  by (induction es arbitrary: c ost) (auto simp: expire_entry_opt_def alloc_killSession_opt)

lemma alloc_sweep_opt: "handles_allocated ost \<Longrightarrow> handles_allocated (sweep_opt w ost)"
  using alloc_sweep_opt_fold [of ost w "sessions ost" False]
  by (cases "fold (expire_entry_opt w) (sessions ost) (False, ost)") (simp add: sweep_opt_def)

lemma alloc_restore_fold:
  "handles_allocated st \<Longrightarrow> handles_allocated (fold restore_one found st)"
  by (induction found arbitrary: st)
    (auto simp: restore_one_def alloc_startSession split: option.split)

lemma alloc_restore_opt_fold:
  "handles_allocated ost \<Longrightarrow> handles_allocated (fold (restore_one_opt M) found ost)"
  by (induction found arbitrary: ost)
    (auto simp: restore_one_opt_def alloc_startSession_opt split: option.split)

lemma alloc_routes:
  assumes "handles_allocated st"
  shows "handles_allocated (route_start w ident phone st)"
    and "handles_allocated (route_refresh w ident st)"
    and "handles_allocated (snd (route_delete w ident st))"
    and "handles_allocated (snd (route_logout w ident st))"
    and "handles_allocated (restoreSessions found st)"
proof -
  show "handles_allocated (route_start w ident phone st)"
    using assms
    by (simp add: route_start_def waitForSessionData_def alloc_startSession split: option.split)
  show "handles_allocated (route_refresh w ident st)"
    using assms
    by (simp add: route_refresh_def waitForSessionData_def alloc_startSession split: option.split)
  show "handles_allocated (snd (route_delete w ident st))"
    using alloc_killSession [OF assms, of w ident "''api_delete''"]
    by (cases "killSession w ident ''api_delete'' st") (simp add: route_delete_def)
  show "handles_allocated (snd (route_logout w ident st))"
    unfolding route_logout_def Let_def using assms
    by (auto intro!: alloc_andThen simp: alloc_delete split: option.split)
  show "handles_allocated (restoreSessions found st)"
    using assms by (simp add: restoreSessions_def alloc_restore_fold)
qed

lemma alloc_routes_opt:
  assumes "handles_allocated ost"
  shows "handles_allocated (route_start_opt M w ident phone ost)"
    and "handles_allocated (route_refresh_opt M w ident ost)"
    and "handles_allocated (snd (route_delete_opt w ident ost))"
    and "handles_allocated (snd (route_logout_opt w ident ost))"
    and "handles_allocated (restoreSessions_opt M found ost)"
proof -
  show "handles_allocated (route_start_opt M w ident phone ost)"
    using assms
    by (simp add: route_start_opt_def waitForSessionData_opt_def alloc_startSession_opt
        split: option.split)
  show "handles_allocated (route_refresh_opt M w ident ost)"
    using assms
    by (simp add: route_refresh_opt_def waitForSessionData_opt_def alloc_startSession_opt
        split: option.split)
  show "handles_allocated (snd (route_delete_opt w ident ost))"
    using alloc_killSession_opt [OF assms, of w ident "''api_delete''"]
    by (cases "killSession_opt w ident ''api_delete'' ost") (simp add: route_delete_opt_def)
  show "handles_allocated (snd (route_logout_opt w ident ost))"
    using assms by (simp add: route_logout_opt_def Let_def alloc_delete split: option.split)
  show "handles_allocated (restoreSessions_opt M found ost)"
    using assms by (simp add: restoreSessions_opt_def alloc_restore_opt_fold)
qed

lemma reachable_v1_allocated: "reachable_v1 st \<Longrightarrow> handles_allocated st"
  by (induction rule: reachable_v1.induct)
    (simp_all add: alloc_init alloc_routes alloc_connection_update_v1 alloc_fire alloc_sweep)

lemma reachable_opt_allocated: "reachable_opt M ost \<Longrightarrow> handles_allocated ost"
  by (induction rule: reachable_opt.induct)
    (simp_all add: alloc_init alloc_routes_opt alloc_connectionListener alloc_fire_opt
      alloc_sweep_opt)

subsection \<open>Forced start\<close>







subsection \<open>The expiry sweep\<close>


lemma expire_entry_step:
  "expire_entry t e (c, st) =
     (if expired_pending t (snd e)
      then (True, delete_session (fst e) (invoke (SockEnd (sock (snd e))) st))
      else (c, st))"
  by (cases e) (simp add: expire_entry_def expired_pending_def)











lemma expire_entry_opt_step:
  "expire_entry_opt w e (c, st) =
     (if expired_pending (now w) (snd e)
      then (True, snd (killSession_opt w (fst e) ''pending_expired'' st))
      else (c, st))"
  by (cases e) (simp add: expire_entry_opt_def expired_pending_def)












subsection \<open>The keys of the registry\<close>

text \<open>Every operation keeps the keys of the registry distinct.\<close>

lemma dk_put [simp]: "keys_distinct st \<Longrightarrow> keys_distinct (put_session k r st)"
  by (simp add: keys_distinct_def distinct_update)

lemma dk_delete [simp]: "keys_distinct st \<Longrightarrow> keys_distinct (delete_session k st)"
  by (simp add: keys_distinct_def distinct_delete)

lemma dk_simple [simp]:
  "keys_distinct (invoke c st) = keys_distinct st"
  "keys_distinct (emitToSession i e d st) = keys_distinct st"
  "keys_distinct (broadcastSessionStatus st) = keys_distinct st"
  "keys_distinct (setTimeout cb ms st) = keys_distinct st"
  "keys_distinct (clearSessionTimers i ost) = keys_distinct ost"
  "keys_distinct (setTrackedTimeout i c' ms ost) = keys_distinct ost"
  "keys_distinct (cleanupSessionSocket w k ost) = keys_distinct ost"
  "keys_distinct (cleanupSessionRedis w i k ost) = keys_distinct ost"
  "keys_distinct (st\<lparr>timers := ts\<rparr>) = keys_distinct st"
  "keys_distinct (st\<lparr>effects := es\<rparr>) = keys_distinct st"
  "keys_distinct (st\<lparr>fresh := n\<rparr>) = keys_distinct st"
  by (simp_all add: keys_distinct_def)

lemma dk_init: "keys_distinct init_state" "keys_distinct init_opt"
  by (simp_all add: keys_distinct_def init_state_def init_opt_def)

lemma dk_install:
  "keys_distinct st \<Longrightarrow> keys_distinct (install w k phone st)"
  "keys_distinct ost \<Longrightarrow> keys_distinct (install_opt w k phone ost)"
  by (simp_all add: install_def install_opt_def Let_def split: option.split)

lemma dk_startSession:
  "keys_distinct st \<Longrightarrow> keys_distinct (snd (startSession w k phone force st))"
  by (simp add: startSession_unfold dk_install split: option.split)

lemma dk_startSession_opt:
  "keys_distinct ost \<Longrightarrow> keys_distinct (snd (startSession_opt M w k phone force ost))"
  by (simp add: startSession_opt_unfold dk_install split: option.split)

lemma dk_killSession:
  "keys_distinct st \<Longrightarrow> keys_distinct (snd (killSession w k reason st))"
  by (simp add: killSession_def Let_def split: option.split)

lemma dk_killSession_opt:
  "keys_distinct ost \<Longrightarrow> keys_distinct (snd (killSession_opt w k reason ost))"
  by (simp add: killSession_opt_def Let_def split: option.split)

lemma dk_andThen:
  assumes "keys_distinct (snd r)"
    and "\<And>st. keys_distinct st \<Longrightarrow> keys_distinct (snd (k st))"
  shows "keys_distinct (snd (andThen r k))"
proof (cases r)
  case (Pair c st)
  then show ?thesis using assms by (cases c) (simp_all add: andThen_def)
qed

lemma dk_deleteKeys [simp]:
  "keys_distinct (snd (deleteKeys w c k st)) = keys_distinct st"
  by (simp add: deleteKeys_def Let_def)

lemma dk_on_qr:
  "keys_distinct st \<Longrightarrow> keys_distinct (snd (on_qr w k u s st))"
  "keys_distinct ost \<Longrightarrow> keys_distinct (on_qr_opt w k u s ost)"
  by (simp_all add: on_qr_def on_qr_opt_def Let_def split: option.split)

lemma dk_purge_delete_v1:
  "keys_distinct st \<Longrightarrow> keys_distinct (snd (purge_delete_v1 w k s notice st))"
  unfolding purge_delete_v1_def Let_def
  by (auto intro!: dk_andThen split: option.split)

lemma dk_close_chain_v1:
  "keys_distinct st \<Longrightarrow> keys_distinct (snd (close_chain_v1 w k phone code s st))"
  by (simp add: close_chain_v1_def Let_def dk_purge_delete_v1 dk_killSession)

lemma dk_close_tail_v1:
  "keys_distinct st \<Longrightarrow> keys_distinct (snd (close_tail_v1 w k phone code s st))"
  by (simp add: close_tail_v1_def Let_def dk_killSession)

lemma dk_on_close_opt:
  "keys_distinct ost \<Longrightarrow> keys_distinct (on_close_opt w k phone code s ost)"
  by (simp add: on_close_opt_def Let_def dk_killSession_opt)

lemma dk_connection_update_v1:
  "keys_distinct st \<Longrightarrow> keys_distinct (snd (connection_update_v1 w k phone sk u st))"
  unfolding connection_update_v1_def Let_def
  by (auto intro!: dk_andThen simp: dk_on_qr dk_close_chain_v1 dk_close_tail_v1
      split: option.split)

lemma dk_connectionListener:
  "keys_distinct ost \<Longrightarrow> keys_distinct (connectionListener w k phone sk u ost)"
  by (simp add: connectionListener_def Let_def dk_on_qr dk_on_close_opt split: option.split)

lemma dk_run_cb: "keys_distinct st \<Longrightarrow> keys_distinct (run_cb w c st)"
  by (cases c) (simp_all add: Let_def dk_startSession split: option.split)

lemma dk_run_cb_opt: "keys_distinct ost \<Longrightarrow> keys_distinct (run_cb_opt M w c ost)"
  by (cases c) (simp_all add: Let_def dk_startSession_opt split: option.split)

lemma dk_fire: "keys_distinct st \<Longrightarrow> keys_distinct (fire w t st)"
  by (simp add: fire_def dk_run_cb split: option.split)

lemma dk_fire_opt: "keys_distinct ost \<Longrightarrow> keys_distinct (fire_opt M w t ost)"
  by (simp add: fire_opt_def dk_run_cb_opt split: option.split)

lemma dk_sweep_fold:
  "keys_distinct st \<Longrightarrow> keys_distinct (snd (fold (expire_entry t) es (c, st)))"
  by (induction es arbitrary: c st) (simp_all add: expire_entry_step)

lemma dk_sweep: "keys_distinct st \<Longrightarrow> keys_distinct (sweep w st)"
  using dk_sweep_fold [of st "now w" "sessions st" False]
  by (cases "fold (expire_entry (now w)) (sessions st) (False, st)") (simp add: sweep_def)

lemma dk_sweep_opt_fold:
  "keys_distinct ost \<Longrightarrow> keys_distinct (snd (fold (expire_entry_opt w) es (c, ost)))"
  by (induction es arbitrary: c ost) (simp_all add: expire_entry_opt_step dk_killSession_opt)

lemma dk_sweep_opt: "keys_distinct ost \<Longrightarrow> keys_distinct (sweep_opt w ost)"
  using dk_sweep_opt_fold [of ost w "sessions ost" False]
  by (cases "fold (expire_entry_opt w) (sessions ost) (False, ost)") (simp add: sweep_opt_def)

lemma dk_restore_fold:
  "keys_distinct st \<Longrightarrow> keys_distinct (fold restore_one found st)"
  by (induction found arbitrary: st)
    (auto simp: restore_one_def dk_startSession split: option.split)

lemma dk_restore_opt_fold:
  "keys_distinct ost \<Longrightarrow> keys_distinct (fold (restore_one_opt M) found ost)"
  by (induction found arbitrary: ost)
    (auto simp: restore_one_opt_def dk_startSession_opt split: option.split)

lemma dk_routes:
  assumes "keys_distinct st"
  shows "keys_distinct (route_start w ident phone st)"
    and "keys_distinct (route_refresh w ident st)"
    and "keys_distinct (snd (route_delete w ident st))"
    and "keys_distinct (snd (route_logout w ident st))"
    and "keys_distinct (restoreSessions found st)"
proof -
  show "keys_distinct (route_start w ident phone st)"
    using assms
    by (simp add: route_start_def waitForSessionData_def dk_startSession split: option.split)
  show "keys_distinct (route_refresh w ident st)"
    using assms
    by (simp add: route_refresh_def waitForSessionData_def dk_startSession split: option.split)
  show "keys_distinct (snd (route_delete w ident st))"
    using dk_killSession [OF assms, of w ident "''api_delete''"]
    by (cases "killSession w ident ''api_delete'' st") (simp add: route_delete_def)
  show "keys_distinct (snd (route_logout w ident st))"
    unfolding route_logout_def Let_def using assms
    by (auto intro!: dk_andThen split: option.split)
  show "keys_distinct (restoreSessions found st)"
    using assms by (simp add: restoreSessions_def dk_restore_fold)
qed

lemma dk_routes_opt:
  assumes "keys_distinct ost"
  shows "keys_distinct (route_start_opt M w ident phone ost)"
    and "keys_distinct (route_refresh_opt M w ident ost)"
    and "keys_distinct (snd (route_delete_opt w ident ost))"
    and "keys_distinct (snd (route_logout_opt w ident ost))"
    and "keys_distinct (restoreSessions_opt M found ost)"
proof -
  show "keys_distinct (route_start_opt M w ident phone ost)"
    using assms
    by (simp add: route_start_opt_def waitForSessionData_opt_def dk_startSession_opt
        split: option.split)
  show "keys_distinct (route_refresh_opt M w ident ost)"
    using assms
    by (simp add: route_refresh_opt_def waitForSessionData_opt_def dk_startSession_opt
        split: option.split)
  show "keys_distinct (snd (route_delete_opt w ident ost))"
    using dk_killSession_opt [OF assms, of w ident "''api_delete''"]
    by (cases "killSession_opt w ident ''api_delete'' ost") (simp add: route_delete_opt_def)
  show "keys_distinct (snd (route_logout_opt w ident ost))"
    using assms by (simp add: route_logout_opt_def Let_def split: option.split)
  show "keys_distinct (restoreSessions_opt M found ost)"
    using assms by (simp add: restoreSessions_opt_def dk_restore_opt_fold)
qed

lemma reachable_v1_distinct: "reachable_v1 st \<Longrightarrow> distinct (map fst (sessions st))"
proof -
  have "reachable_v1 st \<Longrightarrow> keys_distinct st"
    by (induction rule: reachable_v1.induct)
      (simp_all add: dk_init dk_routes dk_connection_update_v1 dk_fire dk_sweep)
  then show "reachable_v1 st \<Longrightarrow> distinct (map fst (sessions st))"
    by (simp add: keys_distinct_def)
qed

lemma reachable_opt_distinct: "reachable_opt M ost \<Longrightarrow> distinct (map fst (sessions ost))"
proof -
  have "reachable_opt M ost \<Longrightarrow> keys_distinct ost"
    by (induction rule: reachable_opt.induct)
      (simp_all add: dk_init dk_routes_opt dk_connectionListener dk_fire_opt dk_sweep_opt)
  then show "reachable_opt M ost \<Longrightarrow> distinct (map fst (sessions ost))"
    by (simp add: keys_distinct_def)
qed

subsection \<open>QR payload and pairing code\<close>

text \<open>The basic steps keep the invariant.\<close>

lemmas ok_defs = artifacts_ok_def records_ok_def pairing_ok_def


lemma ok_same:
  assumes "sessions st' = sessions st" and "timers st' = timers st"
    and "sessionTimers st' = sessionTimers st"
  shows "artifacts_ok st' = artifacts_ok st"
  using assms by (simp add: ok_defs tracked_def)

lemma ok_effects [simp]:
  "artifacts_ok (invoke c st) = artifacts_ok st"
  "artifacts_ok (emitToSession i e d st) = artifacts_ok st"
  "artifacts_ok (broadcastSessionStatus st) = artifacts_ok st"
  "artifacts_ok (cleanupSessionSocket w n st) = artifacts_ok st"
  "artifacts_ok (cleanupSessionRedis w i n st) = artifacts_ok st"
  "artifacts_ok (st\<lparr>effects := es\<rparr>) = artifacts_ok st"
  by (rule ok_same; simp)+






lemma tidy_new_session [simp]: "tidy (new_session sk c phone t)"
  by (simp add: tidy_def new_session_def)






















end
